theory Spec2Isabelle
  imports Complex_Main
begin

section \<open>Python values, failures and tensors\<close>

text \<open>
  The development embeds \<^verbatim>\<open>vectorpainter/painter/inversion.py\<close> and
  \<^verbatim>\<open>vectorpainter/pipelines/VectorPainter_pipeline.py\<close>. Exceptions are values of
  \<open>py_error\<close>; a function that may raise returns \<open>py_error + 'a\<close> with \<open>Inl\<close> for the
  exception. Floating-point tensors are idealised as real numbers: no property below depends
  on rounding. A latent or an image is the flat list of its entries (one batch entry); a batch
  is a list of such entries, so \<^verbatim>\<open>torch.cat\<close> of batch-1 tensors is the list of them and
  \<^verbatim>\<open>flip(0)\<close> is \<open>rev\<close>.
\<close>

datatype py_error =
  IndexError | ZeroDivisionError | ValueError | NameError | FileNotFoundError | AssertionError
  | RuntimeError

text \<open>Indexing a Python sequence or a tensor along its first axis: a negative index counts
  from the end, anything outside \<open>[-len, len)\<close> raises.\<close>

definition py_index :: "'a list \<Rightarrow> int \<Rightarrow> py_error + 'a" where
  "py_index xs i =
     (if 0 \<le> i \<and> i < int (length xs) then Inr (xs ! nat i)
      else if i < 0 \<and> - int (length xs) \<le> i then Inr (xs ! nat (int (length xs) + i))
      else Inl IndexError)"

text \<open>Python's \<^verbatim>\<open>//\<close> on integers: floor division, raising on a zero divisor.\<close>

definition py_floordiv :: "int \<Rightarrow> int \<Rightarrow> py_error + int" where
  "py_floordiv a b = (if b = 0 then Inl ZeroDivisionError else Inr (a div b))"

type_synonym latent = "real list"
type_synonym image = "real list"

definition t_scale :: "real \<Rightarrow> latent \<Rightarrow> latent" where
  "t_scale c x = map (\<lambda>v. c * v) x"

definition t_div :: "latent \<Rightarrow> real \<Rightarrow> latent" where
  "t_div x c = map (\<lambda>v. v / c) x"

definition t_add :: "latent \<Rightarrow> latent \<Rightarrow> latent" where
  "t_add x y = map2 (+) x y"

definition t_sub :: "latent \<Rightarrow> latent \<Rightarrow> latent" where
  "t_sub x y = map2 (-) x y"

text \<open>Text embeddings keep their shape: a tensor is a number or a list of sub-tensors.
  Shapes handed to \<^verbatim>\<open>torch.cat\<close> are taken to be compatible, as the two encoders of
  one pipeline produce them; torch's shape errors are outside the model.\<close>

datatype tensor = Num real | Tens "tensor list"

fun zeros_like :: "tensor \<Rightarrow> tensor" where
  "zeros_like (Num x) = Num 0"
| "zeros_like (Tens ts) = Tens (map zeros_like ts)"

fun all_zero :: "tensor \<Rightarrow> bool" where
  "all_zero (Num x) = (x = 0)"
| "all_zero (Tens ts) = list_all all_zero ts"

fun shape :: "tensor \<Rightarrow> nat list" where
  "shape (Num x) = []"
| "shape (Tens ts) = length ts # (case ts of [] \<Rightarrow> [] | t # _ \<Rightarrow> shape t)"

fun is_Num :: "tensor \<Rightarrow> bool" where
  "is_Num (Num x) = True"
| "is_Num (Tens ts) = False"

text \<open>\<^verbatim>\<open>torch.cat((a, b))\<close> along the batch axis and \<^verbatim>\<open>torch.cat((a, b), dim=-1)\<close>
  along the innermost axis.\<close>

fun cat0 :: "tensor \<Rightarrow> tensor \<Rightarrow> tensor" where
  "cat0 (Tens xs) (Tens ys) = Tens (xs @ ys)"
| "cat0 (Num a) t = Num a"
| "cat0 (Tens xs) (Num b) = Tens xs"

function cat_last :: "tensor \<Rightarrow> tensor \<Rightarrow> tensor" where
  "cat_last (Tens xs) (Tens ys) =
     (if list_all is_Num (xs @ ys) then Tens (xs @ ys)
      else Tens (map (\<lambda>(x, y). cat_last x y) (zip xs ys)))"
| "cat_last (Num a) t = Num a"
| "cat_last (Tens xs) (Num b) = Tens xs"
  by pat_completeness auto
termination
  apply (relation "measure (\<lambda>(a, b). size a)")
   apply simp
  apply (auto dest!: set_zip_leftD simp: less_Suc_eq_le size_list_estimation')
  done

section \<open>The diffusion pipeline as the inversion code sees it\<close>

text \<open>The fields of the \<^verbatim>\<open>StableDiffusionXLPipeline\<close> object that
  \<^verbatim>\<open>inversion.py\<close> reads. The networks are parameters: a text encoder (tokenizer
  included) maps a prompt to its output tuple, the UNet maps a latent batch to a noise batch,
  the scheduler's \<^verbatim>\<open>set_timesteps\<close> rewrites the scheduler.\<close>

record text_encoder_output =
  output_0 :: tensor
  hidden_states :: "tensor list"

record scheduler =
  num_train_timesteps :: int
  num_inference_steps :: int
  timesteps :: "int list"
  alphas_cumprod :: "real list"
  final_alpha_cumprod :: real

record added_cond =
  text_embeds :: tensor
  time_ids :: tensor

record sdxl =
  text_encoder :: "string \<Rightarrow> text_encoder_output"
  text_encoder_2 :: "string \<Rightarrow> text_encoder_output"
  add_time_ids :: tensor
  unet :: "latent list \<Rightarrow> int \<Rightarrow> tensor \<Rightarrow> added_cond \<Rightarrow> latent list"
  vae_encode_mean :: "real list \<Rightarrow> latent"
  scaling_factor :: real
  sched :: scheduler
  set_timesteps :: "int \<Rightarrow> scheduler \<Rightarrow> scheduler"

subsection \<open>Text embeddings\<close>

text \<open>\<^verbatim>\<open>_get_text_embeddings\<close>: the first output and the penultimate hidden state of the
  encoder, replaced by zeros of the same shape for the empty prompt.\<close>

definition get_text_embeddings ::
  "string \<Rightarrow> (string \<Rightarrow> text_encoder_output) \<Rightarrow> py_error + tensor \<times> tensor" where
  "get_text_embeddings prompt encoder =
     (let out = encoder prompt;
          pooled_prompt_embeds = output_0 out
      in case py_index (hidden_states out) (- 2) of
           Inl e \<Rightarrow> Inl e
         | Inr prompt_embeds \<Rightarrow>
             if prompt = []
             then Inr (zeros_like prompt_embeds, zeros_like pooled_prompt_embeds)
             else Inr (prompt_embeds, pooled_prompt_embeds))"

definition encode_text_sdxl :: "sdxl \<Rightarrow> string \<Rightarrow> py_error + added_cond \<times> tensor" where
  "encode_text_sdxl model prompt =
     (case get_text_embeddings prompt (text_encoder model) of
        Inl e \<Rightarrow> Inl e
      | Inr (prompt_embeds, pooled_prompt_embeds) \<Rightarrow>
          (case get_text_embeddings prompt (text_encoder_2 model) of
             Inl e \<Rightarrow> Inl e
           | Inr (prompt_embeds_2, pooled_prompt_embeds2) \<Rightarrow>
               Inr (\<lparr>text_embeds = pooled_prompt_embeds2, time_ids = add_time_ids model\<rparr>,
                    cat_last prompt_embeds prompt_embeds_2)))"

definition encode_text_sdxl_with_negative ::
  "sdxl \<Rightarrow> string \<Rightarrow> py_error + added_cond \<times> tensor" where
  "encode_text_sdxl_with_negative model prompt =
     (case encode_text_sdxl model prompt of
        Inl e \<Rightarrow> Inl e
      | Inr (added_cond_kwargs, prompt_embeds) \<Rightarrow>
          (case encode_text_sdxl model [] of
             Inl e \<Rightarrow> Inl e
           | Inr (added_cond_kwargs_uncond, prompt_embeds_uncond) \<Rightarrow>
               Inr (\<lparr>text_embeds = cat0 (text_embeds added_cond_kwargs_uncond)
                                         (text_embeds added_cond_kwargs),
                     time_ids = cat0 (time_ids added_cond_kwargs_uncond)
                                      (time_ids added_cond_kwargs)\<rparr>,
                    cat0 prompt_embeds_uncond prompt_embeds)))"

subsection \<open>Image encoding and the inversion step\<close>

text \<open>\<^verbatim>\<open>_encode_image\<close>: pixels in \<open>0..255\<close> are mapped to \<open>[-1, 1]\<close>, encoded, and the
  mean of the latent distribution is scaled.\<close>

definition encode_image :: "sdxl \<Rightarrow> image \<Rightarrow> latent" where
  "encode_image model img =
     (let img1 = map (\<lambda>p. p / 255) img;
          img2 = map (\<lambda>p. p * 2 - 1) img1
      in t_scale (scaling_factor model) (vae_encode_mean model img2))"

text \<open>\<^verbatim>\<open>_next_step\<close>, line by line. The tuple assignment computes the earlier timestep
  and keeps the given one as the target of the step.\<close>

definition next_step_timesteps :: "scheduler \<Rightarrow> int \<Rightarrow> py_error + int \<times> int" where
  "next_step_timesteps s timestep =
     (case py_floordiv (num_train_timesteps s) (num_inference_steps s) of
        Inl e \<Rightarrow> Inl e
      | Inr ratio \<Rightarrow> Inr (min (timestep - ratio) 999, timestep))"

definition next_step_alpha_prod_t :: "scheduler \<Rightarrow> int \<Rightarrow> py_error + real" where
  "next_step_alpha_prod_t s timestep =
     (if timestep \<ge> 0 then py_index (alphas_cumprod s) timestep
      else Inr (final_alpha_cumprod s))"

definition next_sample_of :: "real \<Rightarrow> real \<Rightarrow> latent \<Rightarrow> latent \<Rightarrow> latent" where
  "next_sample_of alpha_prod_t alpha_prod_t_next model_output sample =
     (let beta_prod_t = 1 - alpha_prod_t;
          next_original_sample =
            t_div (t_sub sample (t_scale (sqrt beta_prod_t) model_output)) (sqrt alpha_prod_t);
          next_sample_direction = t_scale (sqrt (1 - alpha_prod_t_next)) model_output
      in t_add (t_scale (sqrt alpha_prod_t_next) next_original_sample) next_sample_direction)"

definition next_step :: "sdxl \<Rightarrow> latent \<Rightarrow> int \<Rightarrow> latent \<Rightarrow> py_error + latent" where
  "next_step model model_output timestep0 sample =
     (case next_step_timesteps (sched model) timestep0 of
        Inl e \<Rightarrow> Inl e
      | Inr (timestep, next_timestep) \<Rightarrow>
          (case next_step_alpha_prod_t (sched model) timestep of
             Inl e \<Rightarrow> Inl e
           | Inr alpha_prod_t \<Rightarrow>
               (case py_index (alphas_cumprod (sched model)) next_timestep of
                  Inl e \<Rightarrow> Inl e
                | Inr alpha_prod_t_next \<Rightarrow>
                    Inr (next_sample_of alpha_prod_t alpha_prod_t_next model_output sample))))"

text \<open>\<^verbatim>\<open>_get_noise_pred\<close>: the latent is duplicated, the UNet's output batch is split in
  two halves (unconditional first) and combined by classifier-free guidance. A UNet output
  that does not unpack into two entries is a \<open>ValueError\<close>.\<close>

definition get_noise_pred ::
  "sdxl \<Rightarrow> latent \<Rightarrow> int \<Rightarrow> tensor \<Rightarrow> real \<Rightarrow> added_cond \<Rightarrow> py_error + latent" where
  "get_noise_pred model lat t context guidance_scale added_cond_kwargs =
     (let latents_input = [lat, lat]
      in case unet model latents_input t context added_cond_kwargs of
           [noise_pred_uncond, noise_prediction_text] \<Rightarrow>
             Inr (t_add noise_pred_uncond
                    (t_scale guidance_scale (t_sub noise_prediction_text noise_pred_uncond)))
         | _ \<Rightarrow> Inl ValueError)"

subsection \<open>The inversion loop\<close>

text \<open>One pass through the body of the \<^verbatim>\<open>for i in range(num_inference_steps)\<close> loop
  of \<^verbatim>\<open>_ddim_loop\<close>: the timestep is read from the end of the schedule, the noise is
  predicted and the latent advanced.\<close>

definition ddim_body ::
  "sdxl \<Rightarrow> added_cond \<Rightarrow> tensor \<Rightarrow> real \<Rightarrow> nat \<Rightarrow> latent \<Rightarrow> py_error + latent" where
  "ddim_body model added_cond_kwargs text_embedding guidance_scale i lat =
     (case py_index (timesteps (sched model))
             (int (length (timesteps (sched model))) - int i - 1) of
        Inl e \<Rightarrow> Inl e
      | Inr t \<Rightarrow>
          (case get_noise_pred model lat t text_embedding guidance_scale added_cond_kwargs of
             Inl e \<Rightarrow> Inl e
           | Inr noise_pred \<Rightarrow> next_step model noise_pred t lat))"

text \<open>The loop over the remaining values of \<open>i\<close>, threading the current latent and the list
  collected so far; an exception in the body ends the loop.\<close>

fun ddim_iterate ::
  "sdxl \<Rightarrow> added_cond \<Rightarrow> tensor \<Rightarrow> real \<Rightarrow> nat list \<Rightarrow> latent \<Rightarrow> latent list
     \<Rightarrow> py_error + latent list" where
  "ddim_iterate model added_cond_kwargs text_embedding guidance_scale [] lat all_latent =
     Inr all_latent"
| "ddim_iterate model added_cond_kwargs text_embedding guidance_scale (i # rest) lat all_latent =
     (case ddim_body model added_cond_kwargs text_embedding guidance_scale i lat of
        Inl e \<Rightarrow> Inl e
      | Inr lat' \<Rightarrow>
          ddim_iterate model added_cond_kwargs text_embedding guidance_scale rest
            lat' (all_latent @ [lat']))"

definition ddim_loop :: "sdxl \<Rightarrow> latent \<Rightarrow> string \<Rightarrow> real \<Rightarrow> py_error + latent list" where
  "ddim_loop model z0 prompt guidance_scale =
     (let all_latent = [z0]
      in case encode_text_sdxl_with_negative model prompt of
           Inl e \<Rightarrow> Inl e
         | Inr (added_cond_kwargs, text_embedding) \<Rightarrow>
             (case ddim_iterate model added_cond_kwargs text_embedding guidance_scale
                     [0 ..< nat (num_inference_steps (sched model))] z0 all_latent of
                Inl e \<Rightarrow> Inl e
              | Inr all_latent' \<Rightarrow> Inr (rev all_latent')))"

definition ddim_inversion ::
  "sdxl \<Rightarrow> image \<Rightarrow> string \<Rightarrow> int \<Rightarrow> real \<Rightarrow> py_error + latent list" where
  "ddim_inversion model x0 prompt num_inv_steps guidance_scale =
     (let z0 = encode_image model x0;
          model' = model\<lparr>sched := set_timesteps model num_inv_steps (sched model)\<rparr>
      in ddim_loop model' z0 prompt guidance_scale)"

subsection \<open>The latent-override callback\<close>

text \<open>\<^verbatim>\<open>callback_on_step_end\<close> of \<^verbatim>\<open>make_inversion_callback\<close>: the right-hand side
  \<^verbatim>\<open>zts[max(offset + 1, i + 1)]\<close> is read first, then stored into \<^verbatim>\<open>latents[0]\<close>.\<close>

definition py_setitem :: "'a list \<Rightarrow> nat \<Rightarrow> 'a \<Rightarrow> py_error + 'a list" where
  "py_setitem xs k v = (if k < length xs then Inr (xs[k := v]) else Inl IndexError)"

definition callback_on_step_end ::
  "latent list \<Rightarrow> int \<Rightarrow> int \<Rightarrow> latent list \<Rightarrow> py_error + latent list" where
  "callback_on_step_end zts offset i latents =
     (case py_index zts (max (offset + 1) (i + 1)) of
        Inl e \<Rightarrow> Inl e
      | Inr z \<Rightarrow> py_setitem latents 0 z)"

definition make_inversion_callback ::
  "latent list \<Rightarrow> int
     \<Rightarrow> py_error + latent \<times> (int \<Rightarrow> latent list \<Rightarrow> py_error + latent list)" where
  "make_inversion_callback zts offset =
     (case py_index zts offset of
        Inl e \<Rightarrow> Inl e
      | Inr zT \<Rightarrow> Inr (zT, callback_on_step_end zts offset))"

section \<open>The two-stage pipeline\<close>

text \<open>The configuration values the pipeline reads (\<^verbatim>\<open>x_cfg\<close>, its stage sections and the
  command-line arguments), and the losses reported by one stage-2 iteration.\<close>

record config =
  l2_loss :: real
  struct_loss_weight :: real
  struct_loss :: string
  pos_loss_weight :: real
  pos_type :: string
  cfg_num_inference_steps :: int
  cfg_guidance_scale :: real
  imit_num_iter :: int
  synt_num_iter :: int
  make_video :: bool
  framefreq :: int
  save_step :: int
  result_path :: string

record losses =
  l_recon :: real
  l_struct :: real
  l_rel_pos :: real
  l_total :: real

text \<open>The run's mutable state: the files read back later, the images handed to the
  captioning model, the step counter and the frame counter. Plots, vector snapshots and video
  frames are written but never read by the pipeline and are left out.\<close>

record run_state =
  files :: "string \<Rightarrow> image option"
  captioned :: "image list"
  step :: int
  frame_idx :: int

datatype negative = NegStr string | NegList "string list"

text \<open>The keyword arguments of the generation call \<^verbatim>\<open>ldm_pipe(...)\<close>.\<close>

record sdxl_call =
  prompts :: "string list"
  negative_prompts :: negative
  ip_adapter_image :: image
  call_num_inference_steps :: int
  call_guidance_scale :: real
  call_latents :: "latent list"
  callback :: "int \<Rightarrow> latent list \<Rightarrow> py_error + latent list"

text \<open>The collaborators that are not part of the two source files: image preprocessing, the
  captioning model, the loaded diffusion pipeline with its generation call and random
  generator, the stroke renderer with its optimizer (\<open>'r\<close> is their joint state), and the loss
  functions. \<open>optimizer_update\<close> stands for \<^verbatim>\<open>zero_grad_\<close>, a successful
  \<^verbatim>\<open>backward\<close>, \<^verbatim>\<open>step_\<close> and \<^verbatim>\<open>update_lr\<close> on the given loss at the given
  step.\<close>

record 'r env =
  convert_rgb :: "image \<Rightarrow> image"
  resize_1024 :: "image \<Rightarrow> image"
  img_to_tensor :: "image \<Rightarrow> image"
  blip2_caption :: "image \<Rightarrow> string"
  init_sdxl_pipeline :: sdxl
  randn :: "nat \<Rightarrow> latent"
  generate :: "sdxl_call \<Rightarrow> py_error + image list"
  load_render :: "image \<Rightarrow> 'r"
  init_canvas :: "'r \<Rightarrow> 'r"
  get_image :: "'r \<Rightarrow> image"
  style_img :: "'r \<Rightarrow> image"
  get_point_parameters :: "'r \<Rightarrow> real list"
  optimizer_update :: "real \<Rightarrow> int \<Rightarrow> 'r \<Rightarrow> 'r"
  mse_loss :: "real list \<Rightarrow> real list \<Rightarrow> real"
  SSIM :: "image \<Rightarrow> image \<Rightarrow> real"
  MSSSIM :: "image \<Rightarrow> image \<Rightarrow> real"
  SinkhornLoss :: "image \<Rightarrow> image \<Rightarrow> real"
  get_relative_pos :: "real list \<Rightarrow> real list"
  bezier_curve_loss :: "real list \<Rightarrow> real list \<Rightarrow> real"

definition path_join :: "string \<Rightarrow> string \<Rightarrow> string" where
  "path_join dir name = dir @ ''/'' @ name"

subsection \<open>Stage 1: brushstroke imitation\<close>

text \<open>The \<^verbatim>\<open>while self.step < total_iter\<close> loop of \<^verbatim>\<open>brushstroke_imitation\<close>. The
  logging test \<^verbatim>\<open>self.step % self.args.save_step\<close> raises on a zero \<^verbatim>\<open>save_step\<close>.\<close>

function imitation_loop :: "'r env \<Rightarrow> config \<Rightarrow> int \<Rightarrow> int \<Rightarrow> 'r \<Rightarrow> py_error + int \<times> 'r" where
  "imitation_loop E cfg total_iter stp r =
     (if stp < total_iter
      then (let raster_sketch = get_image E r;
                l = mse_loss E (style_img E r) raster_sketch;
                r' = optimizer_update E l stp r
            in if save_step cfg = 0 then Inl ZeroDivisionError
               else imitation_loop E cfg total_iter (stp + 1) r')
      else Inr (stp, r))"
  by pat_completeness auto
termination
  by (relation "measure (\<lambda>(E, cfg, total_iter, stp, r). nat (total_iter - stp))") auto

definition brushstroke_imitation ::
  "'r env \<Rightarrow> config \<Rightarrow> run_state \<Rightarrow> 'r \<Rightarrow> py_error + 'r \<times> string \<times> run_state" where
  "brushstroke_imitation E cfg st renderer =
     (case imitation_loop E cfg (imit_num_iter cfg) (step st) renderer of
        Inl e \<Rightarrow> Inl e
      | Inr (stp, renderer') \<Rightarrow>
          (let style_result = get_image E renderer';
               recon_style_fpath = path_join (result_path cfg) ''style_result.png''
           in Inr (renderer', recon_style_fpath,
                   st\<lparr>step := stp,
                      files := (files st)(recon_style_fpath \<mapsto> style_result)\<rparr>)))"

subsection \<open>Inversion and guided synthesis\<close>

definition captioning :: "'r env \<Rightarrow> run_state \<Rightarrow> image \<Rightarrow> string \<times> run_state" where
  "captioning E st img = (blip2_caption E img, st\<lparr>captioned := captioned st @ [img]\<rparr>)"

text \<open>The arguments \<^verbatim>\<open>style_inversion\<close> builds for the generation call: three prompts,
  one random latent per prompt with slots 0 and 1 overwritten by \<open>zT\<close>, and a negative
  prompt repeated once per prompt when it is a single string.\<close>

definition synthesis_call ::
  "'r env \<Rightarrow> config \<Rightarrow> string \<Rightarrow> string \<Rightarrow> negative \<Rightarrow> image \<Rightarrow> latent
     \<Rightarrow> (int \<Rightarrow> latent list \<Rightarrow> py_error + latent list) \<Rightarrow> py_error + sdxl_call" where
  "synthesis_call E cfg style_prompt prompt negative_prompt init_img zT inversion_callback =
     (let ps = [style_prompt, prompt, prompt];
          latents = map (randn E) [0 ..< length ps]
      in case py_setitem latents 0 zT of
           Inl e \<Rightarrow> Inl e
         | Inr latents1 \<Rightarrow>
             (case py_setitem latents1 1 zT of
                Inl e \<Rightarrow> Inl e
              | Inr latents2 \<Rightarrow>
                  Inr \<lparr>prompts = ps,
                       negative_prompts =
                         (case negative_prompt of
                            NegStr s \<Rightarrow> NegList (replicate (length ps) s)
                          | NegList ss \<Rightarrow> NegList ss),
                       ip_adapter_image = init_img,
                       call_num_inference_steps = cfg_num_inference_steps cfg,
                       call_guidance_scale = cfg_guidance_scale cfg,
                       call_latents = latents2,
                       callback = inversion_callback\<rparr>))"

text \<open>\<^verbatim>\<open>style_inversion\<close>. The target is written to \<^verbatim>\<open>sd_sample/target.png\<close> and
  read back; the scheduler state left by the inversion is reset by the generation call.\<close>

definition style_inversion ::
  "'r env \<Rightarrow> config \<Rightarrow> run_state \<Rightarrow> string \<Rightarrow> negative \<Rightarrow> string option \<Rightarrow> string
     \<Rightarrow> py_error + image \<times> run_state" where
  "style_inversion E cfg st prompt negative_prompt style_prompt init_fpath =
     (case files st init_fpath of
        None \<Rightarrow> Inl FileNotFoundError
      | Some f \<Rightarrow>
          (let init_img = resize_1024 E (convert_rgb E f);
               (style_prompt', st1) =
                 (case style_prompt of
                    Some s \<Rightarrow> (s, st)
                  | None \<Rightarrow> captioning E st init_img);
               ldm_pipe = init_sdxl_pipeline E;
               x0 = init_img;
               guidance_scale = 2
           in case ddim_inversion ldm_pipe x0 style_prompt' (cfg_num_inference_steps cfg)
                     guidance_scale of
                Inl e \<Rightarrow> Inl e
              | Inr zts \<Rightarrow>
                  (case make_inversion_callback zts 5 of
                     Inl e \<Rightarrow> Inl e
                   | Inr (zT, inversion_callback) \<Rightarrow>
                       (case synthesis_call E cfg style_prompt' prompt negative_prompt
                               init_img zT inversion_callback of
                          Inl e \<Rightarrow> Inl e
                        | Inr call \<Rightarrow>
                            (case generate E call of
                               Inl e \<Rightarrow> Inl e
                             | Inr outputs \<Rightarrow>
                                 (case py_index outputs (- 1) of
                                    Inl e \<Rightarrow> Inl e
                                  | Inr target \<Rightarrow>
                                      (let target_file =
                                             path_join (path_join (result_path cfg) ''sd_sample'')
                                               ''target.png''
                                       in Inr (target,
                                               st1\<lparr>files :=
                                                 (files st1)(target_file \<mapsto> target)\<rparr>))))))))"

subsection \<open>The generation call\<close>

text \<open>Modelled from the spec: the full iterative generation call of the diffusion pipeline. It
  belongs to the pipeline object that \<^verbatim>\<open>init_sdxl_pipeline\<close> returns and is not among the
  source files; above it is the parameter \<open>generate\<close>. The spec describes it as the model's
  standard iterative denoising loop over a batch whose entries map one to one to the prompts,
  with a callback at the end of every step that may override the latents, followed by the
  decoding of each latent into an image. The denoising of one entry under its prompt and the
  decoder are parameters; a batch or a list of negative prompts whose size differs from the
  number of prompts is refused.\<close>

type_synonym denoiser = "int \<Rightarrow> string \<Rightarrow> string \<Rightarrow> image \<Rightarrow> real \<Rightarrow> latent \<Rightarrow> latent"

fun generation_steps ::
  "denoiser \<Rightarrow> sdxl_call \<Rightarrow> string list \<Rightarrow> nat list \<Rightarrow> latent list
     \<Rightarrow> py_error + latent list" where
  "generation_steps denoise call negs [] latents = Inr latents"
| "generation_steps denoise call negs (i # rest) latents =
     (case callback call (int i)
             (map (\<lambda>(p, ng, l). denoise (int i) p ng (ip_adapter_image call)
                                 (call_guidance_scale call) l)
                (zip (prompts call) (zip negs latents))) of
        Inl e \<Rightarrow> Inl e
      | Inr latents' \<Rightarrow> generation_steps denoise call negs rest latents')"

definition guided_generation ::
  "denoiser \<Rightarrow> (latent \<Rightarrow> image) \<Rightarrow> sdxl_call \<Rightarrow> py_error + image list" where
  "guided_generation denoise decode call =
     (let negs = (case negative_prompts call of
                    NegStr s \<Rightarrow> replicate (length (prompts call)) s
                  | NegList ss \<Rightarrow> ss)
      in if length negs = length (prompts call)
            \<and> length (call_latents call) = length (prompts call)
         then (case generation_steps denoise call negs
                      [0 ..< nat (call_num_inference_steps call)] (call_latents call) of
                 Inl e \<Rightarrow> Inl e
               | Inr latents \<Rightarrow> Inr (map decode latents))
         else Inl ValueError)"

subsection \<open>Stage 2: synthesis with style supervision\<close>

text \<open>The structural loss chosen before the loop; the name stays unbound when the weight is
  not positive.\<close>

definition init_struct_loss :: "'r env \<Rightarrow> config \<Rightarrow> (image \<Rightarrow> image \<Rightarrow> real) option" where
  "init_struct_loss E cfg =
     (if struct_loss_weight cfg > 0
      then (if struct_loss cfg = ''ssim'' then Some (SSIM E)
            else if struct_loss cfg = ''msssim'' then Some (MSSSIM E)
            else Some (\<lambda>x y. 0))
      else None)"

text \<open>The three loss terms and their sum, as one iteration of the stage-2 loop computes
  them from the current raster.\<close>

definition stage2_losses ::
  "'r env \<Rightarrow> config \<Rightarrow> (image \<Rightarrow> image \<Rightarrow> real) option \<Rightarrow> image \<Rightarrow> real list \<Rightarrow> real list
     \<Rightarrow> 'r \<Rightarrow> py_error + losses" where
  "stage2_losses E cfg l_struct_fn inputs init_relative_pos init_curves renderer =
     (let raster_sketch = get_image E renderer;
          l_recon0 =
            (if l2_loss cfg > 0 then mse_loss E raster_sketch inputs * l2_loss cfg else 0)
      in case (if struct_loss_weight cfg > 0
               then (case l_struct_fn of
                       None \<Rightarrow> Inl NameError
                     | Some f \<Rightarrow>
                         if struct_loss cfg \<in> set [''ssim'', ''msssim'']
                         then Inr (1 - f raster_sketch inputs)
                         else Inr (f raster_sketch inputs))
               else Inr 0) of
           Inl e \<Rightarrow> Inl e
         | Inr l_struct0 \<Rightarrow>
             (let l_rel_pos0 =
                    (if pos_loss_weight cfg > 0
                     then (if pos_type cfg = ''pos''
                           then mse_loss E (get_relative_pos E (get_point_parameters E renderer))
                                  init_relative_pos * pos_loss_weight cfg
                           else if pos_type cfg = ''bez''
                           then bezier_curve_loss E (get_point_parameters E renderer) init_curves
                                  * pos_loss_weight cfg
                           else if pos_type cfg = ''sinkhorn''
                           then SinkhornLoss E raster_sketch (style_img E renderer)
                                  * pos_loss_weight cfg
                           else 0)
                     else 0)
              in Inr \<lparr>l_recon = l_recon0, l_struct = l_struct0, l_rel_pos = l_rel_pos0,
                      l_total = l_recon0 + l_struct0 + l_rel_pos0\<rparr>))"

text \<open>\<^verbatim>\<open>loss.backward()\<close> raises a \<open>RuntimeError\<close> when the loss is attached to no
  parameter of the renderer. That is the case exactly when each of the three terms is still the
  constant \<^verbatim>\<open>torch.tensor(0.)\<close>: a term is computed from the raster or the stroke points
  only in the guarded branches of the loss computation, and the zero structural loss chosen
  for an unknown metric name is such a constant as well. The stage-1 loss is always computed
  from the raster.\<close>

definition loss_requires_grad :: "config \<Rightarrow> bool" where
  "loss_requires_grad cfg =
     (l2_loss cfg > 0
      \<or> (struct_loss_weight cfg > 0 \<and> struct_loss cfg \<in> set [''ssim'', ''msssim''])
      \<or> (pos_loss_weight cfg > 0 \<and> pos_type cfg \<in> set [''pos'', ''bez'', ''sinkhorn'']))"

text \<open>One iteration of the stage-2 loop: the optional video frame, the losses, the backward
  pass and the optimizer update, the progress record and the logging test.\<close>

definition synthesis_iteration ::
  "'r env \<Rightarrow> config \<Rightarrow> (image \<Rightarrow> image \<Rightarrow> real) option \<Rightarrow> image \<Rightarrow> real list \<Rightarrow> real list
     \<Rightarrow> int \<Rightarrow> run_state \<Rightarrow> 'r \<Rightarrow> py_error + 'r \<times> run_state \<times> losses" where
  "synthesis_iteration E cfg l_struct_fn inputs init_relative_pos init_curves total_iter st
       renderer =
     (case (if make_video cfg
            then (if framefreq cfg = 0 then Inl ZeroDivisionError
                  else if step st mod framefreq cfg = 0 \<or> step st = total_iter - 1
                  then Inr (st\<lparr>frame_idx := frame_idx st + 1\<rparr>)
                  else Inr st)
            else Inr st) of
        Inl e \<Rightarrow> Inl e
      | Inr st1 \<Rightarrow>
          (case stage2_losses E cfg l_struct_fn inputs init_relative_pos init_curves renderer of
             Inl e \<Rightarrow> Inl e
           | Inr l \<Rightarrow>
               if \<not> loss_requires_grad cfg then Inl RuntimeError
               else (let renderer' = optimizer_update E (l_total l) (step st1) renderer
                     in if save_step cfg = 0 then Inl ZeroDivisionError
                        else Inr (renderer', st1\<lparr>step := step st1 + 1\<rparr>, l))))"

function synthesis_loop ::
  "'r env \<Rightarrow> config \<Rightarrow> (image \<Rightarrow> image \<Rightarrow> real) option \<Rightarrow> image \<Rightarrow> real list \<Rightarrow> real list
     \<Rightarrow> int \<Rightarrow> run_state \<Rightarrow> 'r \<Rightarrow> losses list \<Rightarrow> py_error + 'r \<times> run_state \<times> losses list" where
  "synthesis_loop E cfg l_struct_fn inputs init_relative_pos init_curves total_iter st renderer
       records =
     (if step st < total_iter
      then (case synthesis_iteration E cfg l_struct_fn inputs init_relative_pos init_curves
                   total_iter st renderer of
              Inl e \<Rightarrow> Inl e
            | Inr (renderer', st', l) \<Rightarrow>
                synthesis_loop E cfg l_struct_fn inputs init_relative_pos init_curves total_iter
                  st' renderer' (records @ [l]))
      else Inr (renderer, st, records))"
  by pat_completeness auto
termination
proof (relation "measure (\<lambda>(E, cfg, f, inputs, irp, ic, total_iter, st, r, records).
                   nat (total_iter - step st))")
  show "wf (measure (\<lambda>(E :: 'r env, cfg :: config, f :: (image \<Rightarrow> image \<Rightarrow> real) option,
               inputs :: image, irp :: real list, ic :: real list, total_iter :: int,
               st :: run_state, r :: 'r, records :: losses list). nat (total_iter - step st)))"
    by simp
next
  fix E :: "'r env" and cfg :: config and l_struct_fn :: "(image \<Rightarrow> image \<Rightarrow> real) option"
    and inputs :: image and init_relative_pos init_curves :: "real list" and total_iter :: int
    and st :: run_state and renderer :: 'r and records :: "losses list"
    and x2 :: "'r \<times> run_state \<times> losses" and x y :: "_" and xa ya :: "_"
  assume lt: "step st < total_iter"
    and it: "synthesis_iteration E cfg l_struct_fn inputs init_relative_pos init_curves
               total_iter st renderer = Inr x2"
    and x2: "(x, y) = x2" "(xa, ya) = y"
  from it x2 have "step xa = step st + 1"
    by (auto simp: synthesis_iteration_def Let_def split: if_splits sum.splits)
  with lt show "((E, cfg, l_struct_fn, inputs, init_relative_pos, init_curves, total_iter, xa, x,
                  records @ [ya]),
                 (E, cfg, l_struct_fn, inputs, init_relative_pos, init_curves, total_iter, st,
                  renderer, records))
      \<in> measure (\<lambda>(E, cfg, f, inputs, irp, ic, total_iter, st, r, records).
                   nat (total_iter - step st))"
    by simp
qed

text \<open>The part of \<^verbatim>\<open>synthesis_with_style_supervision\<close> after the target is known: the
  reference stroke positions are captured, the structural loss is chosen, the step counter is
  reset and the loop runs.\<close>

definition stage2_optimisation ::
  "'r env \<Rightarrow> config \<Rightarrow> run_state \<Rightarrow> image \<Rightarrow> 'r \<Rightarrow> py_error + 'r \<times> run_state \<times> losses list" where
  "stage2_optimisation E cfg st inputs renderer =
     (let init_relative_pos = get_relative_pos E (get_point_parameters E renderer);
          init_curves = get_point_parameters E renderer;
          l_struct_fn = init_struct_loss E cfg;
          st0 = st\<lparr>step := 0\<rparr>;
          total_iter = synt_num_iter cfg
      in synthesis_loop E cfg l_struct_fn inputs init_relative_pos init_curves total_iter st0
           renderer [])"

definition synthesis_with_style_supervision ::
  "'r env \<Rightarrow> config \<Rightarrow> run_state \<Rightarrow> string \<Rightarrow> negative \<Rightarrow> 'r \<Rightarrow> string option \<Rightarrow> string
     \<Rightarrow> py_error + 'r \<times> run_state \<times> losses list" where
  "synthesis_with_style_supervision E cfg st prompt negative_prompt renderer style_prompt
       recon_style_fpath =
     (case style_inversion E cfg st prompt negative_prompt style_prompt recon_style_fpath of
        Inl e \<Rightarrow> Inl e
      | Inr (target, st1) \<Rightarrow>
          stage2_optimisation E cfg st1 (img_to_tensor E target) renderer)"

subsection \<open>The orchestrator\<close>

definition load_img_to_tensor :: "'r env \<Rightarrow> run_state \<Rightarrow> string \<Rightarrow> py_error + image" where
  "load_img_to_tensor E st file_path =
     (case files st file_path of
        None \<Rightarrow> Inl AssertionError
      | Some f \<Rightarrow> Inr (img_to_tensor E (convert_rgb E f)))"

text \<open>\<^verbatim>\<open>painterly_rendering\<close>: stage 1 returns the path of the reconstructed style image,
  and stage 2 is called with \<^verbatim>\<open>style_fpath\<close>.\<close>

definition painterly_rendering ::
  "'r env \<Rightarrow> config \<Rightarrow> run_state \<Rightarrow> string \<Rightarrow> negative \<Rightarrow> string \<Rightarrow> string option
     \<Rightarrow> py_error + 'r \<times> run_state \<times> losses list" where
  "painterly_rendering E cfg st text_prompt negative_prompt style_fpath style_prompt =
     (case load_img_to_tensor E st style_fpath of
        Inl e \<Rightarrow> Inl e
      | Inr style_tensor \<Rightarrow>
          (let renderer = init_canvas E (load_render E style_tensor)
           in case brushstroke_imitation E cfg st renderer of
                Inl e \<Rightarrow> Inl e
              | Inr (renderer', recon_style_fpath, st1) \<Rightarrow>
                  synthesis_with_style_supervision E cfg st1 text_prompt negative_prompt
                    renderer' style_prompt style_fpath))"

section \<open>A concrete pipeline for the examples\<close>

text \<open>A small instance of every collaborator, on which the functions above are evaluated:
  a scheduler with ten training timesteps whose \<^verbatim>\<open>set_timesteps\<close> uses the leading
  spacing with offset one, a UNet that predicts zero noise, one-pixel images, and a renderer
  whose state is the style image together with the current raster.\<close>

definition ex_encoder :: "string \<Rightarrow> text_encoder_output" where
  "ex_encoder p =
     \<lparr>output_0 = Tens [Tens [Num (real (length p) + 1)]],
      hidden_states = [Tens [Tens [Num 1]], Tens [Tens [Num 2, Num 3]], Tens [Tens [Num 4]]]\<rparr>"

definition ex_sched :: scheduler where
  "ex_sched =
     \<lparr>num_train_timesteps = 10, num_inference_steps = 0, timesteps = [],
      alphas_cumprod = [1, 1/4, 1/4, 1/16, 1/16, 1/64, 1/64, 1/256, 1/256, 1/1024],
      final_alpha_cumprod = 1\<rparr>"

definition ex_set_timesteps :: "int \<Rightarrow> scheduler \<Rightarrow> scheduler" where
  "ex_set_timesteps n s =
     s\<lparr>num_inference_steps := n,
       timesteps := map (\<lambda>k. int k * (num_train_timesteps s div n) + 1) (rev [0 ..< nat n])\<rparr>"

definition ex_sdxl :: sdxl where
  "ex_sdxl =
     \<lparr>text_encoder = ex_encoder, text_encoder_2 = ex_encoder,
      add_time_ids = Tens [Tens [Num 1024, Num 1024, Num 0, Num 0, Num 1024, Num 1024]],
      unet = (\<lambda>latents t context kw. map (map (\<lambda>v. 0)) latents),
      vae_encode_mean = (\<lambda>x. x), scaling_factor = 8,
      sched = ex_sched, set_timesteps = ex_set_timesteps\<rparr>"

definition ex_generate :: "sdxl_call \<Rightarrow> py_error + image list" where
  "ex_generate call =
     (case callback call 0 (call_latents call) of
        Inl e \<Rightarrow> Inl e
      | Inr latents \<Rightarrow> Inr latents)"

definition ex_denoise :: denoiser where
  "ex_denoise i p ng img g l = map (\<lambda>v. v + real (length p)) l"

definition ex_env :: "(image \<times> image) env" where
  "ex_env =
     \<lparr>convert_rgb = (\<lambda>x. x), resize_1024 = (\<lambda>x. x),
      img_to_tensor = map (\<lambda>p. p / 255),
      blip2_caption = (\<lambda>img. if img = [255] then ''a painting'' else ''brush strokes''),
      init_sdxl_pipeline = ex_sdxl,
      randn = (\<lambda>k. [real k * 255 / 4]),
      generate = ex_generate,
      load_render = (\<lambda>style. (style, map (\<lambda>v. 0) style)),
      init_canvas = (\<lambda>r. r),
      get_image = snd,
      style_img = fst,
      get_point_parameters = snd,
      optimizer_update = (\<lambda>l stp (style, raster). (style, map (\<lambda>v. v + 1/2) raster)),
      mse_loss = (\<lambda>x y. sum_list (map2 (\<lambda>a b. (a - b) * (a - b)) x y)),
      SSIM = (\<lambda>x y. 1/2),
      MSSSIM = (\<lambda>x y. 1/4),
      SinkhornLoss = (\<lambda>x y. sum_list (map2 (\<lambda>a b. \<bar>a - b\<bar>) x y)),
      get_relative_pos = (\<lambda>p. p),
      bezier_curve_loss = (\<lambda>x y. sum_list (map2 (\<lambda>a b. \<bar>a - b\<bar>) x y))\<rparr>"

definition ex_cfg :: config where
  "ex_cfg =
     \<lparr>l2_loss = 1, struct_loss_weight = 2, struct_loss = ''ssim'',
      pos_loss_weight = 3, pos_type = ''sinkhorn'',
      cfg_num_inference_steps = 6, cfg_guidance_scale = 5,
      imit_num_iter = 1, synt_num_iter = 2,
      make_video = False, framefreq = 1, save_step = 1, result_path = ''out''\<rparr>"

definition ex_state :: run_state where
  "ex_state =
     \<lparr>files = [''style.png'' \<mapsto> [255]], captioned = [], step = 0, frame_idx = 0\<rparr>"

section \<open>Properties of the text embeddings and the inversion loop\<close>

lemma zeros_like_all_zero: "all_zero (zeros_like t)"
  by (induction t) (auto simp: list_all_iff)

lemma zeros_like_shape: "shape (zeros_like t) = shape t"
  by (induction t) (auto split: list.splits)

lemma is_Num_zeros_like: "is_Num (zeros_like t) = is_Num t"
  by (cases t) auto

lemma list_all_is_Num_zeros_like: "list_all is_Num (map zeros_like xs) = list_all is_Num xs"
  by (induction xs) (simp_all add: is_Num_zeros_like)

lemma cat_last_zeros_like: "cat_last (zeros_like a) (zeros_like b) = zeros_like (cat_last a b)"
proof (induction a b rule: cat_last.induct)
  case (1 xs ys)
  show ?case
  proof (cases "list_all is_Num (xs @ ys)")
    case True
    then show ?thesis by (simp add: list_all_is_Num_zeros_like)
  next
    case False
    have "map (\<lambda>(x, y). cat_last x y) (zip (map zeros_like xs) (map zeros_like ys))
        = map (\<lambda>(x, y). zeros_like (cat_last x y)) (zip xs ys)"
      unfolding zip_map_map map_map
      by (rule map_cong) (use 1 False in auto)
    with False show ?thesis
      by (auto simp: list_all_is_Num_zeros_like comp_def case_prod_unfold)
  qed
qed simp_all

lemma get_text_embeddings_empty:
  "get_text_embeddings [] encoder =
     (case py_index (hidden_states (encoder [])) (- 2) of
        Inl e \<Rightarrow> Inl e
      | Inr h \<Rightarrow> Inr (zeros_like h, zeros_like (output_0 (encoder []))))"
  by (simp add: get_text_embeddings_def Let_def split: sum.splits)

lemma encode_text_sdxl_empty:
  assumes "encode_text_sdxl model [] = Inr (kw, pe)"
  shows "\<exists>h1 h2. py_index (hidden_states (text_encoder model [])) (- 2) = Inr h1 \<and>
     py_index (hidden_states (text_encoder_2 model [])) (- 2) = Inr h2 \<and>
     pe = zeros_like (cat_last h1 h2) \<and>
     text_embeds kw = zeros_like (output_0 (text_encoder_2 model []))"
  using assms
  by (auto simp: encode_text_sdxl_def get_text_embeddings_empty cat_last_zeros_like
      split: sum.splits prod.splits)

lemma ddim_iterate_steps:
  "ddim_iterate m kw ctx g is lat acc = Inr res \<Longrightarrow>
   \<exists>news. res = acc @ news \<and> length news = length is \<and>
     (\<forall>k < length is. ddim_body m kw ctx g (is ! k) ((lat # news) ! k) = Inr (news ! k))"
proof (induction "is" arbitrary: lat acc)
  case Nil
  then show ?case by simp
next
  case (Cons i rest)
  from Cons.prems obtain lat' where
    b: "ddim_body m kw ctx g i lat = Inr lat'" and
    r: "ddim_iterate m kw ctx g rest lat' (acc @ [lat']) = Inr res"
    by (auto split: sum.splits)
  from Cons.IH[OF r] obtain news where
    n: "res = (acc @ [lat']) @ news" "length news = length rest"
      "\<forall>k < length rest. ddim_body m kw ctx g (rest ! k) ((lat' # news) ! k) = Inr (news ! k)"
    by blast
  have "\<forall>k < length (i # rest).
     ddim_body m kw ctx g ((i # rest) ! k) ((lat # lat' # news) ! k) = Inr ((lat' # news) ! k)"
  proof (intro allI impI)
    fix k assume "k < length (i # rest)"
    then show "ddim_body m kw ctx g ((i # rest) ! k) ((lat # lat' # news) ! k) = Inr ((lat' # news) ! k)"
      using b n(3) by (cases k) auto
  qed
  with n(1,2) show ?case
    by (intro exI[of _ "lat' # news"]) simp
qed

section \<open>Properties of the stage-2 loop\<close>

lemma stage2_losses_total:
  "\<exists>l. stage2_losses E cfg (init_struct_loss E cfg) inputs irp ic r = Inr l"
  by (simp add: stage2_losses_def init_struct_loss_def Let_def)

lemma stage2_losses_terms:
  assumes "stage2_losses E cfg (init_struct_loss E cfg) inputs irp ic r = Inr l"
  shows "l_total l = l_recon l + l_struct l + l_rel_pos l"
    and "l2_loss cfg \<le> 0 \<Longrightarrow> l_recon l = 0"
    and "struct_loss_weight cfg \<le> 0 \<Longrightarrow> l_struct l = 0"
    and "pos_loss_weight cfg \<le> 0 \<Longrightarrow> l_rel_pos l = 0"
    and "pos_type cfg \<notin> set [''pos'', ''bez'', ''sinkhorn''] \<Longrightarrow> l_rel_pos l = 0"
  using assms
  by (auto simp: stage2_losses_def init_struct_loss_def Let_def split: if_splits)

lemma synthesis_iteration_returns:
  assumes "save_step cfg \<noteq> 0" and "make_video cfg \<Longrightarrow> framefreq cfg \<noteq> 0"
    and "loss_requires_grad cfg"
  shows "\<exists>r' st' l. synthesis_iteration E cfg (init_struct_loss E cfg) inputs irp ic tot st r
            = Inr (r', st', l)"
proof -
  obtain l where "stage2_losses E cfg (init_struct_loss E cfg) inputs irp ic r = Inr l"
    using stage2_losses_total[of E cfg inputs irp ic r] by auto
  with assms show ?thesis
    by (auto simp: synthesis_iteration_def Let_def)
qed

lemma synthesis_iteration_result:
  assumes "synthesis_iteration E cfg f inputs irp ic tot st r = Inr (r', st', l)"
  shows "step st' = step st + 1 \<and> stage2_losses E cfg f inputs irp ic r = Inr l"
  using assms
  by (auto simp: synthesis_iteration_def Let_def split: if_splits sum.splits)

lemma synthesis_loop_records:
  "synthesis_loop E cfg f inputs irp ic tot st r recs = Inr (r', st', recs') \<Longrightarrow>
   \<exists>news. recs' = recs @ news \<and> length news = nat (tot - step st) \<and>
     (\<forall>l \<in> set news. \<exists>q. stage2_losses E cfg f inputs irp ic q = Inr l)"
proof (induction E cfg f inputs irp ic tot st r recs rule: synthesis_loop.induct)
  case (1 E cfg f inputs irp ic tot st r recs)
  show ?case
  proof (cases "step st < tot")
    case False
    with "1.prems" show ?thesis by simp
  next
    case True
    with "1.prems" obtain r1 st1 l where
      it: "synthesis_iteration E cfg f inputs irp ic tot st r = Inr (r1, st1, l)" and
      rest: "synthesis_loop E cfg f inputs irp ic tot st1 r1 (recs @ [l]) = Inr (r', st', recs')"
      by (auto split: sum.splits)
    from synthesis_iteration_result[OF it] have
      s: "step st1 = step st + 1" and l: "stage2_losses E cfg f inputs irp ic r = Inr l"
      by simp_all
    from "1.IH"[OF True it refl refl rest] obtain news where
      n: "recs' = (recs @ [l]) @ news" "length news = nat (tot - step st1)"
         "\<forall>l \<in> set news. \<exists>q. stage2_losses E cfg f inputs irp ic q = Inr l"
      by blast
    have "length (l # news) = nat (tot - step st)"
      using n(2) s True by simp
    moreover have "\<forall>l \<in> set (l # news). \<exists>q. stage2_losses E cfg f inputs irp ic q = Inr l"
      using n(3) l by auto
    ultimately show ?thesis
      using n(1) by (intro exI[of _ "l # news"]) simp
  qed
qed


lemma synthesis_loop_returns:
  assumes "save_step cfg \<noteq> 0" and "make_video cfg \<Longrightarrow> framefreq cfg \<noteq> 0"
    and "loss_requires_grad cfg"
  shows "\<exists>r' st' recs'.
    synthesis_loop E cfg (init_struct_loss E cfg) inputs irp ic tot st r recs
      = Inr (r', st', recs')"
  using assms
proof (induction E cfg "init_struct_loss E cfg" inputs irp ic tot st r recs
    rule: synthesis_loop.induct)
  case (1 E cfg inputs irp ic tot st r recs)
  show ?case
  proof (cases "step st < tot")
    case False
    then show ?thesis by simp
  next
    case True
    obtain r1 st1 l where
      it: "synthesis_iteration E cfg (init_struct_loss E cfg) inputs irp ic tot st r
             = Inr (r1, st1, l)"
      using synthesis_iteration_returns[OF "1.prems", of E inputs irp ic tot st r] by auto
    from "1.hyps"[OF True it refl refl "1.prems"] True it show ?thesis
      by simp
  qed
qed

section \<open>Evaluating the concrete pipeline\<close>

lemma ex_sqrt:
  "sqrt (1/4) = 1/2" "sqrt (1/16) = 1/4" "sqrt (1/64) = 1/8" "sqrt (1/256) = 1/16"
  "sqrt (1/1024) = 1/32"
  by (rule real_sqrt_unique; simp add: power2_eq_square)+

lemmas ex_defs = ex_sdxl_def ex_sched_def ex_set_timesteps_def ex_encoder_def

lemmas inv_defs = ddim_inversion_def ddim_loop_def ddim_body_def encode_image_def
  encode_text_sdxl_with_negative_def encode_text_sdxl_def get_text_embeddings_def
  get_noise_pred_def next_step_def next_step_timesteps_def next_step_alpha_prod_t_def
  next_sample_of_def py_index_def py_floordiv_def t_scale_def t_div_def t_add_def t_sub_def

section \<open>The claims\<close>

text \<open>
  Claim C9. For the empty prompt the text-embedding helper returns zero tensors with the shapes
  of the encoder outputs, for the sequence embedding and for the pooled embedding alike; hence
  in the embeddings built for classifier-free guidance the unconditional part, which comes
  first in the batch, is all zero and is not the encoder's output for the empty string.
\<close>

theorem empty_prompt_zero_embeddings:
  "get_text_embeddings [] encoder =
     (case py_index (hidden_states (encoder [])) (- 2) of
        Inl e \<Rightarrow> Inl e
      | Inr h \<Rightarrow> Inr (zeros_like h, zeros_like (output_0 (encoder []))))
   \<and> all_zero (zeros_like t) \<and> shape (zeros_like t) = shape t
   \<and> (encode_text_sdxl_with_negative model prompt = Inr (kw, pe) \<longrightarrow>
        (\<exists>kw_u pe_u kw_c pe_c.
           encode_text_sdxl model [] = Inr (kw_u, pe_u) \<and>
           encode_text_sdxl model prompt = Inr (kw_c, pe_c) \<and>
           all_zero pe_u \<and> all_zero (text_embeds kw_u) \<and>
           pe = cat0 pe_u pe_c \<and>
           text_embeds kw = cat0 (text_embeds kw_u) (text_embeds kw_c)))"
proof (intro conjI impI)
  show "get_text_embeddings [] encoder =
     (case py_index (hidden_states (encoder [])) (- 2) of
        Inl e \<Rightarrow> Inl e
      | Inr h \<Rightarrow> Inr (zeros_like h, zeros_like (output_0 (encoder []))))"
    by (rule get_text_embeddings_empty)
  show "all_zero (zeros_like t)" by (rule zeros_like_all_zero)
  show "shape (zeros_like t) = shape t" by (rule zeros_like_shape)
next
  assume a: "encode_text_sdxl_with_negative model prompt = Inr (kw, pe)"
  then obtain kw_c pe_c kw_u pe_u where
    c: "encode_text_sdxl model prompt = Inr (kw_c, pe_c)" and
    u: "encode_text_sdxl model [] = Inr (kw_u, pe_u)" and
    r: "pe = cat0 pe_u pe_c" "text_embeds kw = cat0 (text_embeds kw_u) (text_embeds kw_c)"
    by (auto simp: encode_text_sdxl_with_negative_def split: sum.splits prod.splits)
  from encode_text_sdxl_empty[OF u] have "all_zero pe_u" "all_zero (text_embeds kw_u)"
    by (auto simp: zeros_like_all_zero)
  with c u r show "\<exists>kw_u pe_u kw_c pe_c.
           encode_text_sdxl model [] = Inr (kw_u, pe_u) \<and>
           encode_text_sdxl model prompt = Inr (kw_c, pe_c) \<and>
           all_zero pe_u \<and> all_zero (text_embeds kw_u) \<and>
           pe = cat0 pe_u pe_c \<and>
           text_embeds kw = cat0 (text_embeds kw_u) (text_embeds kw_c)"
    by blast
qed

text \<open>The embeddings of the concrete pipeline for the prompt \<open>oil\<close>.\<close>

lemma ex_with_negative:
  "encode_text_sdxl_with_negative ex_sdxl ''oil'' =
     Inr (\<lparr>text_embeds = Tens [Tens [Num 0], Tens [Num 4]],
           time_ids = Tens [Tens [Num 1024, Num 1024, Num 0, Num 0, Num 1024, Num 1024],
                            Tens [Num 1024, Num 1024, Num 0, Num 0, Num 1024, Num 1024]]\<rparr>,
          Tens [Tens [Num 0, Num 0, Num 0, Num 0], Tens [Num 2, Num 3, Num 2, Num 3]])"
  by (simp add: inv_defs ex_defs)

theorem empty_prompt_zero_embeddings_witness:
  "encode_text_sdxl_with_negative ex_sdxl ''oil'' =
     Inr (\<lparr>text_embeds = Tens [Tens [Num 0], Tens [Num 4]],
           time_ids = Tens [Tens [Num 1024, Num 1024, Num 0, Num 0, Num 1024, Num 1024],
                            Tens [Num 1024, Num 1024, Num 0, Num 0, Num 1024, Num 1024]]\<rparr>,
          Tens [Tens [Num 0, Num 0, Num 0, Num 0], Tens [Num 2, Num 3, Num 2, Num 3]])
   \<and> get_text_embeddings [] ex_encoder = Inr (Tens [Tens [Num 0, Num 0]], Tens [Tens [Num 0]])
   \<and> (\<exists>kw_u pe_u. encode_text_sdxl ex_sdxl [] = Inr (kw_u, pe_u) \<and>
         all_zero pe_u \<and> all_zero (text_embeds kw_u))"
  using empty_prompt_zero_embeddings[of ex_encoder "Num 1" ex_sdxl "''oil''"
      "\<lparr>text_embeds = Tens [Tens [Num 0], Tens [Num 4]],
           time_ids = Tens [Tens [Num 1024, Num 1024, Num 0, Num 0, Num 1024, Num 1024],
                            Tens [Num 1024, Num 1024, Num 0, Num 0, Num 1024, Num 1024]]\<rparr>"
      "Tens [Tens [Num 0, Num 0, Num 0, Num 0], Tens [Num 2, Num 3, Num 2, Num 3]]"]
    ex_with_negative
  by (auto simp: ex_encoder_def py_index_def)

text \<open>Every record of a completed stage-2 run is the loss breakdown of some renderer state,
  and there is one record per iteration of the budget.\<close>

lemma stage2_optimisation_records:
  assumes "stage2_optimisation E cfg st inputs r = Inr (r', st', recs)"
  shows "length recs = nat (synt_num_iter cfg) \<and>
    (\<forall>l \<in> set recs. \<exists>q. stage2_losses E cfg (init_struct_loss E cfg) inputs
         (get_relative_pos E (get_point_parameters E r)) (get_point_parameters E r) q = Inr l)"
  using synthesis_loop_records[of E cfg "init_struct_loss E cfg" inputs
      "get_relative_pos E (get_point_parameters E r)" "get_point_parameters E r"
      "synt_num_iter cfg" "st\<lparr>step := 0\<rparr>" r "[]" r' st' recs] assms
  by (auto simp: stage2_optimisation_def Let_def)

text \<open>In every stage-2 iteration a term whose weight is not positive is exactly 0, and the
  total is the plain sum of the three reported terms; the same holds of every record of a
  completed run.\<close>

lemma disabled_terms_zero:
  "(\<exists>l. stage2_losses E cfg (init_struct_loss E cfg) inputs irp ic r = Inr l \<and>
        (l2_loss cfg \<le> 0 \<longrightarrow> l_recon l = 0) \<and>
        (struct_loss_weight cfg \<le> 0 \<longrightarrow> l_struct l = 0) \<and>
        (pos_loss_weight cfg \<le> 0 \<longrightarrow> l_rel_pos l = 0) \<and>
        l_total l = l_recon l + l_struct l + l_rel_pos l)
   \<and> (stage2_optimisation E cfg st inputs r = Inr (r', st', recs) \<longrightarrow>
        (\<forall>l \<in> set recs.
           (l2_loss cfg \<le> 0 \<longrightarrow> l_recon l = 0) \<and>
           (struct_loss_weight cfg \<le> 0 \<longrightarrow> l_struct l = 0) \<and>
           (pos_loss_weight cfg \<le> 0 \<longrightarrow> l_rel_pos l = 0) \<and>
           l_total l = l_recon l + l_struct l + l_rel_pos l))"
proof -
  obtain l where l: "stage2_losses E cfg (init_struct_loss E cfg) inputs irp ic r = Inr l"
    using stage2_losses_total[of E cfg inputs irp ic r] by auto
  have one: "\<exists>l. stage2_losses E cfg (init_struct_loss E cfg) inputs irp ic r = Inr l \<and>
        (l2_loss cfg \<le> 0 \<longrightarrow> l_recon l = 0) \<and>
        (struct_loss_weight cfg \<le> 0 \<longrightarrow> l_struct l = 0) \<and>
        (pos_loss_weight cfg \<le> 0 \<longrightarrow> l_rel_pos l = 0) \<and>
        l_total l = l_recon l + l_struct l + l_rel_pos l"
    using l stage2_losses_terms(1-4)[OF l] by (intro exI[of _ l]) simp
  have every: "(l2_loss cfg \<le> 0 \<longrightarrow> l_recon l = 0) \<and>
           (struct_loss_weight cfg \<le> 0 \<longrightarrow> l_struct l = 0) \<and>
           (pos_loss_weight cfg \<le> 0 \<longrightarrow> l_rel_pos l = 0) \<and>
           l_total l = l_recon l + l_struct l + l_rel_pos l"
    if run: "stage2_optimisation E cfg st inputs r = Inr (r', st', recs)" and "l \<in> set recs"
    for l
  proof -
    from stage2_optimisation_records[OF run] that(2) obtain q where
      q: "stage2_losses E cfg (init_struct_loss E cfg) inputs
           (get_relative_pos E (get_point_parameters E r)) (get_point_parameters E r) q = Inr l"
      by blast
    show ?thesis using stage2_losses_terms(1-4)[OF q] by simp
  qed
  from one every show ?thesis by blast
qed

lemmas loss_defs = stage2_losses_def init_struct_loss_def loss_requires_grad_def ex_env_def
  ex_cfg_def

text \<open>
  Claim C6. The total loss is the plain sum of the three reported terms, and a term whose
  weight is not positive is 0 in it; but the structural term enters unweighted, so the total
  is not the sum of the three weighted terms. At the input below the weights are 1, 2 and 3,
  the three losses 1/4, 1/2 and 1: the weighted terms sum to 17/4, the total is 15/4, and it
  stays 15/4 when the structural weight is 7.
\<close>

theorem total_omits_structural_weight:
  "stage2_losses ex_env ex_cfg (init_struct_loss ex_env ex_cfg) [1/2] [0] [0] ([1], [0])
     = Inr \<lparr>l_recon = 1/4, l_struct = 1/2, l_rel_pos = 3, l_total = 15/4\<rparr>
   \<and> l2_loss ex_cfg * mse_loss ex_env (get_image ex_env ([1], [0])) [1/2]
       + struct_loss_weight ex_cfg * (1 - SSIM ex_env (get_image ex_env ([1], [0])) [1/2])
       + pos_loss_weight ex_cfg
           * SinkhornLoss ex_env (get_image ex_env ([1], [0])) (style_img ex_env ([1], [0]))
     = 17/4
   \<and> stage2_losses ex_env (ex_cfg\<lparr>struct_loss_weight := 7\<rparr>)
         (init_struct_loss ex_env (ex_cfg\<lparr>struct_loss_weight := 7\<rparr>)) [1/2] [0] [0] ([1], [0])
     = Inr \<lparr>l_recon = 1/4, l_struct = 1/2, l_rel_pos = 3, l_total = 15/4\<rparr>
   \<and> loss_requires_grad ex_cfg"
  by (simp add: loss_defs Let_def)

text \<open>
  Claim C5. When the position-loss type is \<open>sinkhorn\<close> and its weight is positive, the
  positional term of a stage-2 iteration is the Sinkhorn distance between the current raster
  and the style image held by the renderer, times the weight; the synthesis target does not
  enter it.
\<close>

theorem sinkhorn_compares_with_style_image:
  assumes "pos_type cfg = ''sinkhorn''" and "pos_loss_weight cfg > 0"
  shows "\<exists>l. stage2_losses E cfg (init_struct_loss E cfg) inputs irp ic r = Inr l \<and>
     l_rel_pos l = SinkhornLoss E (get_image E r) (style_img E r) * pos_loss_weight cfg"
  using assms by (simp add: stage2_losses_def init_struct_loss_def Let_def)

theorem sinkhorn_compares_with_style_image_witness:
  "pos_type ex_cfg = ''sinkhorn'' \<and> pos_loss_weight ex_cfg > 0
   \<and> stage2_losses ex_env ex_cfg (init_struct_loss ex_env ex_cfg) [1/2] [0] [0] ([1], [0])
     = Inr \<lparr>l_recon = 1/4, l_struct = 1/2, l_rel_pos = 3, l_total = 15/4\<rparr>
   \<and> SinkhornLoss ex_env (get_image ex_env ([1], [0])) (style_img ex_env ([1], [0]))
       * pos_loss_weight ex_cfg = 3
   \<and> SinkhornLoss ex_env (get_image ex_env ([1], [0])) [1/2] * pos_loss_weight ex_cfg = 3/2"
  using sinkhorn_compares_with_style_image[of ex_cfg ex_env "[1/2]" "[0]" "[0]" "([1], [0])"]
  by (simp add: loss_defs Let_def)

text \<open>The callback at a step whose trajectory index is in range: slot 0 is replaced by the
  trajectory entry \<open>max (offset + 1) (i + 1)\<close>, every other slot is kept.\<close>

lemma callback_replaces_slot_0:
  assumes "0 \<le> i" and "max (offset + 1) (i + 1) < int (length zts)" and "latents \<noteq> []"
  shows "callback_on_step_end zts offset i latents
           = Inr (zts ! nat (max (offset + 1) (i + 1)) # tl latents)"
proof -
  from assms(1) have "0 \<le> max (offset + 1) (i + 1)"
    by linarith
  with assms(2) have "py_index zts (max (offset + 1) (i + 1))
      = Inr (zts ! nat (max (offset + 1) (i + 1)))"
    unfolding py_index_def by simp
  moreover from assms(3) obtain l0 others where "latents = l0 # others"
    by (cases latents) auto
  ultimately show ?thesis
    by (simp add: callback_on_step_end_def py_setitem_def)
qed

text \<open>
  Claim C2. The structural term of a stage-2 iteration is \<open>1 - metric\<close> whenever the weight
  is positive and the metric is one of the two similarity metrics; the weight only switches
  the term on and is never multiplied in, unlike the weights of the two sibling terms. At the
  input below (weight 2, similarity 1/2) the term is 1/2, where the weighted term is 1.
\<close>

theorem struct_term_ignores_weight:
  "map_sum id l_struct
     (stage2_losses ex_env ex_cfg (init_struct_loss ex_env ex_cfg) [1/2] [0] [0] ([1], [0]))
     = Inr (1/2)
   \<and> struct_loss_weight ex_cfg * (1 - SSIM ex_env (get_image ex_env ([1], [0])) [1/2]) = 1
   \<and> struct_loss_weight ex_cfg = 2 \<and> struct_loss ex_cfg = ''ssim''"
  by (simp add: loss_defs Let_def)

text \<open>The same for every input: the enabled structural term does not depend on the weight,
  and a metric name other than the two supported ones gives a zero term.\<close>

lemma struct_term_unweighted:
  assumes "struct_loss_weight cfg > 0"
  shows "\<exists>l. stage2_losses E cfg (init_struct_loss E cfg) inputs irp ic r = Inr l \<and>
     l_struct l =
       (if struct_loss cfg = ''ssim'' then 1 - SSIM E (get_image E r) inputs
        else if struct_loss cfg = ''msssim'' then 1 - MSSSIM E (get_image E r) inputs
        else 0)"
  using assms by (simp add: stage2_losses_def init_struct_loss_def Let_def)

text \<open>The concrete inversion with two and with six steps.\<close>

lemma ex_inv2: "ddim_inversion ex_sdxl [255] ''oil'' 2 2 = Inr [[1], [4], [8]]"
  by (simp add: inv_defs ex_defs ex_sqrt Let_def eval_nat_numeral)

lemma ex_inv6:
  "ddim_inversion ex_sdxl [255] p 6 2 = Inr [[1], [1], [2], [2], [4], [4], [8]]"
  by (simp add: inv_defs ex_defs ex_sqrt Let_def eval_nat_numeral)

text \<open>
  Claim C4, as stated, asks for the earlier timestep computed by \<^verbatim>\<open>_next_step\<close> to lie in
  \<open>[0, 999]\<close>. With ten training timesteps and five inference steps the first timestep of the
  inversion loop is 1 and the computed index is \<open>-1\<close>.
\<close>

theorem next_step_timestep_below_zero:
  "py_index (timesteps (ex_set_timesteps 5 ex_sched))
       (int (length (timesteps (ex_set_timesteps 5 ex_sched))) - int 0 - 1) = Inr 1
   \<and> next_step_timesteps (ex_set_timesteps 5 ex_sched) 1 = Inr (- 1, 1)
   \<and> \<not> (0 \<le> (- 1 :: int) \<and> (- 1 :: int) \<le> 999)"
  by (simp add: next_step_timesteps_def py_floordiv_def py_index_def ex_defs eval_nat_numeral)

text \<open>
  Claim C4, amended. The earlier timestep computed by \<^verbatim>\<open>_next_step\<close> is
  \<open>min (t - num_train_timesteps div num_inference_steps) 999\<close>: it is capped at 999 and has
  no lower bound. When it is negative the update takes \<^verbatim>\<open>final_alpha_cumprod\<close> as the
  alpha of the earlier timestep; otherwise it takes \<^verbatim>\<open>alphas_cumprod\<close> at that index.
\<close>

theorem next_step_timestep_and_alpha:
  assumes "num_inference_steps (sched model) \<noteq> 0"
  shows "\<exists>ts. next_step_timesteps (sched model) t = Inr (ts, t) \<and>
     ts = min (t - num_train_timesteps (sched model) div num_inference_steps (sched model)) 999 \<and>
     ts \<le> 999 \<and>
     (ts < 0 \<longrightarrow>
        next_step model out t sample =
          (case py_index (alphas_cumprod (sched model)) t of
             Inl e \<Rightarrow> Inl e
           | Inr a' \<Rightarrow> Inr (next_sample_of (final_alpha_cumprod (sched model)) a' out sample))) \<and>
     (0 \<le> ts \<longrightarrow>
        next_step model out t sample =
          (case py_index (alphas_cumprod (sched model)) ts of
             Inl e \<Rightarrow> Inl e
           | Inr a \<Rightarrow>
               (case py_index (alphas_cumprod (sched model)) t of
                  Inl e \<Rightarrow> Inl e
                | Inr a' \<Rightarrow> Inr (next_sample_of a a' out sample))))"
proof -
  define ts where
    "ts = min (t - num_train_timesteps (sched model) div num_inference_steps (sched model)) 999"
  have tt: "next_step_timesteps (sched model) t = Inr (ts, t)"
    using assms by (simp add: next_step_timesteps_def py_floordiv_def ts_def)
  have le: "ts \<le> 999"
    by (simp add: ts_def)
  have neg: "next_step model out t sample =
          (case py_index (alphas_cumprod (sched model)) t of
             Inl e \<Rightarrow> Inl e
           | Inr a' \<Rightarrow> Inr (next_sample_of (final_alpha_cumprod (sched model)) a' out sample))"
    if "ts < 0"
    using that by (simp add: next_step_def tt next_step_alpha_prod_t_def)
  have nonneg: "next_step model out t sample =
          (case py_index (alphas_cumprod (sched model)) ts of
             Inl e \<Rightarrow> Inl e
           | Inr a \<Rightarrow>
               (case py_index (alphas_cumprod (sched model)) t of
                  Inl e \<Rightarrow> Inl e
                | Inr a' \<Rightarrow> Inr (next_sample_of a a' out sample)))"
    if "0 \<le> ts"
    using that by (simp add: next_step_def tt next_step_alpha_prod_t_def)
  from tt le neg nonneg show ?thesis
    unfolding ts_def by blast
qed

theorem next_step_timestep_and_alpha_witness:
  "num_inference_steps (sched (ex_sdxl\<lparr>sched := ex_set_timesteps 5 ex_sched\<rparr>)) \<noteq> 0
   \<and> next_step_timesteps (sched (ex_sdxl\<lparr>sched := ex_set_timesteps 5 ex_sched\<rparr>)) 1
       = Inr (- 1, 1)
   \<and> next_step (ex_sdxl\<lparr>sched := ex_set_timesteps 5 ex_sched\<rparr>) [0] 1 [8]
       = Inr (next_sample_of 1 (1/4) [0] [8])
   \<and> next_sample_of 1 (1/4) [0] [8] = [4]"
proof -
  have n: "num_inference_steps (sched (ex_sdxl\<lparr>sched := ex_set_timesteps 5 ex_sched\<rparr>)) \<noteq> 0"
    by (simp add: ex_defs)
  from next_step_timestep_and_alpha[OF n, of 1 "[0]" "[8]"] n show ?thesis
    by (auto simp: ex_defs py_index_def next_sample_of_def t_scale_def t_div_def t_add_def
        t_sub_def ex_sqrt Let_def)
qed

text \<open>
  Claim C1, as stated, puts the clean encoded image at index 0. In the concrete pipeline with
  two inversion steps the encoded image is \<open>[8]\<close>, the loop collects \<open>[8], [4], [1]\<close> and the
  final flip returns them reversed: index 0 holds \<open>[1]\<close>, the state after both steps.
\<close>

theorem ddim_inversion_clean_image_not_first:
  "ddim_inversion ex_sdxl [255] ''oil'' 2 2 = Inr [[1], [4], [8]]
   \<and> encode_image ex_sdxl [255] = [8]
   \<and> [[1], [4], [8 :: real]] ! 0 \<noteq> encode_image ex_sdxl [255]"
  using ex_inv2 by (simp add: encode_image_def ex_defs t_scale_def)

text \<open>
  Claim C1, amended. The trajectory returned by \<^verbatim>\<open>ddim_inversion\<close> has
  \<open>num_steps + 1\<close> latents; the clean encoded image is the last one, at index \<open>num_steps\<close>,
  and the latent at each smaller index is one inversion step applied to the latent at the next
  index. After the final flip smaller indices are noisier, index 0 being the state after all
  steps.
\<close>

theorem ddim_inversion_noisiest_first:
  assumes inv: "ddim_inversion model x0 prompt n g = Inr zs"
    and st: "num_inference_steps (set_timesteps model n (sched model)) = n"
  shows "length zs = nat n + 1 \<and> zs ! nat n = encode_image model x0 \<and>
     (\<exists>kw ctx.
        encode_text_sdxl_with_negative (model\<lparr>sched := set_timesteps model n (sched model)\<rparr>)
          prompt = Inr (kw, ctx) \<and>
        (\<forall>k < nat n.
           ddim_body (model\<lparr>sched := set_timesteps model n (sched model)\<rparr>) kw ctx g k
             (zs ! (nat n - k)) = Inr (zs ! (nat n - Suc k))))"
proof -
  define M where "M = model\<lparr>sched := set_timesteps model n (sched model)\<rparr>"
  define z0 where "z0 = encode_image model x0"
  have nM: "num_inference_steps (sched M) = n"
    using st by (simp add: M_def)
  from inv obtain kw ctx acc where
    enc: "encode_text_sdxl_with_negative M prompt = Inr (kw, ctx)" and
    it: "ddim_iterate M kw ctx g [0 ..< nat n] z0 [z0] = Inr acc" and
    zs: "zs = rev acc"
    by (auto simp: ddim_inversion_def ddim_loop_def Let_def M_def[symmetric] z0_def[symmetric]
        nM split: sum.splits prod.splits)
  from ddim_iterate_steps[OF it] obtain news where
    acc: "acc = [z0] @ news" and len: "length news = nat n" and
    body: "\<forall>k < nat n. ddim_body M kw ctx g ([0 ..< nat n] ! k) ((z0 # news) ! k)
             = Inr (news ! k)"
    by auto
  have zsr: "zs = rev (z0 # news)"
    by (simp add: zs acc)
  have idx: "zs ! (nat n - k) = (z0 # news) ! k" if "k \<le> nat n" for k
    unfolding zsr using that len by (subst rev_nth) auto
  have "length zs = nat n + 1"
    by (simp add: zsr len)
  moreover have "zs ! nat n = z0"
    using idx[of 0] by simp
  moreover have "ddim_body M kw ctx g k (zs ! (nat n - k)) = Inr (zs ! (nat n - Suc k))"
    if "k < nat n" for k
  proof -
    from that body have "ddim_body M kw ctx g k ((z0 # news) ! k) = Inr (news ! k)"
      by simp
    moreover have "zs ! (nat n - k) = (z0 # news) ! k"
      using idx[of k] that by simp
    moreover have "zs ! (nat n - Suc k) = news ! k"
      using idx[of "Suc k"] that by simp
    ultimately show ?thesis by simp
  qed
  ultimately show ?thesis
    using enc unfolding M_def z0_def by blast
qed

theorem ddim_inversion_noisiest_first_witness:
  "ddim_inversion ex_sdxl [255] ''oil'' 2 2 = Inr [[1], [4], [8]]
   \<and> num_inference_steps (set_timesteps ex_sdxl 2 (sched ex_sdxl)) = 2
   \<and> length [[1], [4], [8 :: real]] = nat 2 + 1
   \<and> [[1], [4], [8]] ! nat 2 = encode_image ex_sdxl [255]"
proof -
  have st: "num_inference_steps (set_timesteps ex_sdxl 2 (sched ex_sdxl)) = 2"
    by (simp add: ex_defs)
  from ddim_inversion_noisiest_first[OF ex_inv2 st] ex_inv2 st show ?thesis
    by simp
qed

text \<open>A complete run of the concrete pipeline without a style prompt.\<close>

lemmas pipe_defs = painterly_rendering_def load_img_to_tensor_def brushstroke_imitation_def
  synthesis_with_style_supervision_def style_inversion_def captioning_def synthesis_call_def
  make_inversion_callback_def callback_on_step_end_def py_setitem_def ex_generate_def
  stage2_optimisation_def synthesis_iteration_def path_join_def ex_state_def


lemma py_index_last: "py_index xs (- 1) = Inr x \<Longrightarrow> xs \<noteq> [] \<and> x = last xs"
  by (cases "xs = []") (auto simp: py_index_def last_conv_nth nat_diff_distrib' split: if_splits)

text \<open>The inversion captions exactly when no style prompt is given, and then it captions the
  image read from the path it was handed.\<close>

lemma style_inversion_captioned:
  assumes "style_inversion E cfg st prompt negative_prompt style_prompt init_fpath
             = Inr (target, st')"
  shows "\<exists>f. files st init_fpath = Some f \<and>
     captioned st' =
       (case style_prompt of
          Some s \<Rightarrow> captioned st
        | None \<Rightarrow> captioned st @ [resize_1024 E (convert_rgb E f)])"
  using assms
  by (auto simp: style_inversion_def captioning_def Let_def
      split: option.splits sum.splits prod.splits)

text \<open>The arguments of the generation call: the call is always built, with the two
  overwritten latent slots followed by the third random latent.\<close>

lemma synthesis_call_shape:
  "\<exists>call. synthesis_call E cfg sp prompt negative_prompt init_img zT cb = Inr call \<and>
     prompts call = [sp, prompt, prompt] \<and>
     call_latents call = [zT, zT, randn E 2] \<and>
     callback call = cb \<and>
     negative_prompts call =
       (case negative_prompt of
          NegStr s \<Rightarrow> NegList [s, s, s]
        | NegList ss \<Rightarrow> NegList ss)"
  by (cases negative_prompt)
    (simp_all add: synthesis_call_def py_setitem_def Let_def eval_nat_numeral)

text \<open>What a successful \<^verbatim>\<open>style_inversion\<close> has done: it read the image, inverted it
  under the given or generated style prompt, and ran the generation call on three prompts
  with the callback built from the saved trajectory; the target is the last output.\<close>

lemma style_inversion_generation_call:
  assumes "style_inversion E cfg st prompt negative_prompt style_prompt init_fpath
             = Inr (target, st')"
  shows "\<exists>f zts outputs.
     files st init_fpath = Some f \<and>
     ddim_inversion (init_sdxl_pipeline E) (resize_1024 E (convert_rgb E f))
       (case style_prompt of
          Some s \<Rightarrow> s
        | None \<Rightarrow> blip2_caption E (resize_1024 E (convert_rgb E f)))
       (cfg_num_inference_steps cfg) 2 = Inr zts \<and>
     5 < length zts \<and>
     generate E
       \<lparr>prompts =
          [case style_prompt of
             Some s \<Rightarrow> s
           | None \<Rightarrow> blip2_caption E (resize_1024 E (convert_rgb E f)),
           prompt, prompt],
        negative_prompts =
          (case negative_prompt of
             NegStr s \<Rightarrow> NegList [s, s, s]
           | NegList ss \<Rightarrow> NegList ss),
        ip_adapter_image = resize_1024 E (convert_rgb E f),
        call_num_inference_steps = cfg_num_inference_steps cfg,
        call_guidance_scale = cfg_guidance_scale cfg,
        call_latents = [zts ! 5, zts ! 5, randn E 2],
        callback = callback_on_step_end zts 5\<rparr> = Inr outputs \<and>
     py_index outputs (- 1) = Inr target"
proof -
  from assms obtain f where f: "files st init_fpath = Some f"
    by (auto simp: style_inversion_def split: option.splits)
  define img where "img = resize_1024 E (convert_rgb E f)"
  define sp where
    "sp = (case style_prompt of Some s \<Rightarrow> s | None \<Rightarrow> blip2_caption E img)"
  define st1 where
    "st1 = (case style_prompt of Some s \<Rightarrow> st | None \<Rightarrow> snd (captioning E st img))"
  have cap: "(case style_prompt of Some s \<Rightarrow> (s, st) | None \<Rightarrow> captioning E st img)
               = (sp, st1)"
    by (cases style_prompt) (simp_all add: sp_def st1_def captioning_def)
  from assms f cap obtain zts zT cb call outputs where
    inv: "ddim_inversion (init_sdxl_pipeline E) img sp (cfg_num_inference_steps cfg) 2
            = Inr zts" and
    mk: "make_inversion_callback zts 5 = Inr (zT, cb)" and
    sc: "synthesis_call E cfg sp prompt negative_prompt img zT cb = Inr call" and
    g: "generate E call = Inr outputs" and
    t: "py_index outputs (- 1) = Inr target"
    by (auto simp: style_inversion_def Let_def img_def[symmetric]
        split: sum.splits prod.splits)
  from mk have len: "5 < length zts" and zT: "zT = zts ! 5"
    and cb: "cb = callback_on_step_end zts 5"
    by (auto simp: make_inversion_callback_def py_index_def split: sum.splits if_splits)
  from synthesis_call_shape[of E cfg sp prompt negative_prompt img zT cb] sc
  have call: "call =
       \<lparr>prompts = [sp, prompt, prompt],
        negative_prompts =
          (case negative_prompt of
             NegStr s \<Rightarrow> NegList [s, s, s]
           | NegList ss \<Rightarrow> NegList ss),
        ip_adapter_image = img,
        call_num_inference_steps = cfg_num_inference_steps cfg,
        call_guidance_scale = cfg_guidance_scale cfg,
        call_latents = [zts ! 5, zts ! 5, randn E 2],
        callback = callback_on_step_end zts 5\<rparr>"
    by (cases negative_prompt)
      (auto simp: synthesis_call_def py_setitem_def Let_def eval_nat_numeral zT cb)
  from f inv len g t show ?thesis
    unfolding call sp_def img_def by blast
qed

text \<open>The generation loop with the trajectory callback keeps the batch size, and every entry
  but the first is the result of denoising its own latent under its own prompt.\<close>

lemma generation_steps_entries:
  assumes "callback call = callback_on_step_end zts off"
    and "length (prompts call) = length latents" and "length negs = length latents"
    and "generation_steps denoise call negs steps latents = Inr res"
  shows "length res = length latents \<and>
     (\<forall>k. 0 < k \<and> k < length latents \<longrightarrow>
        res ! k =
          fold (\<lambda>i. denoise (int i) (prompts call ! k) (negs ! k) (ip_adapter_image call)
                       (call_guidance_scale call))
            steps (latents ! k))"
  using assms(2-4)
proof (induction steps arbitrary: latents)
  case Nil
  then show ?case by simp
next
  case (Cons i rest)
  define latents1 where
    "latents1 = map (\<lambda>(p, ng, l). denoise (int i) p ng (ip_adapter_image call)
                                     (call_guidance_scale call) l)
                  (zip (prompts call) (zip negs latents))"
  have len1: "length latents1 = length latents"
    using Cons.prems(1,2) by (simp add: latents1_def)
  have nth1: "latents1 ! k = denoise (int i) (prompts call ! k) (negs ! k)
                 (ip_adapter_image call) (call_guidance_scale call) (latents ! k)"
    if "k < length latents" for k
    using that Cons.prems(1,2) by (simp add: latents1_def)
  from Cons.prems(3) obtain latents2 where
    cb: "callback_on_step_end zts off (int i) latents1 = Inr latents2" and
    rest: "generation_steps denoise call negs rest latents2 = Inr res"
    by (auto simp: latents1_def[symmetric] assms(1) split: sum.splits)
  from cb obtain z where l2: "latents2 = latents1[0 := z]"
    by (auto simp: callback_on_step_end_def py_setitem_def split: sum.splits if_splits)
  have len2: "length latents2 = length latents"
    by (simp add: l2 len1)
  have nth2: "latents2 ! k = latents1 ! k" if "0 < k" for k
    using that by (simp add: l2)
  from Cons.IH[OF _ _ rest] len2 Cons.prems(1,2) have
    ih: "length res = length latents2"
      "\<forall>k. 0 < k \<and> k < length latents2 \<longrightarrow>
        res ! k =
          fold (\<lambda>i. denoise (int i) (prompts call ! k) (negs ! k) (ip_adapter_image call)
                       (call_guidance_scale call))
            rest (latents2 ! k)"
    by simp_all
  show ?case
    using ih len2 nth1 nth2 by simp
qed

text \<open>
  Claim C8. With the generation call as the spec describes it, a guided-synthesis call of
  \<^verbatim>\<open>style_inversion\<close> passes the prompts (style, content, content), the style prompt
  being the given one or the caption, with one latent and one negative prompt per prompt; the
  output batch has one entry per prompt, in order, every entry after the first being the
  decoded result of denoising its own latent under its own prompt; and the target returned to
  the caller is the last entry, that of the last content prompt.
\<close>

theorem generation_outputs_follow_prompts:
  assumes gen: "generate E = guided_generation denoise decode"
    and run: "style_inversion E cfg st prompt negative_prompt style_prompt init_fpath
                = Inr (target, st')"
  shows "\<exists>f call outputs negs.
     files st init_fpath = Some f \<and>
     generate E call = Inr outputs \<and>
     prompts call =
       [case style_prompt of
          Some s \<Rightarrow> s
        | None \<Rightarrow> blip2_caption E (resize_1024 E (convert_rgb E f)),
        prompt, prompt] \<and>
     negs = (case negative_prompt of NegStr s \<Rightarrow> [s, s, s] | NegList ss \<Rightarrow> ss) \<and>
     length negs = length (prompts call) \<and>
     length (call_latents call) = length (prompts call) \<and>
     length outputs = length (prompts call) \<and>
     (\<forall>k. 0 < k \<and> k < length (prompts call) \<longrightarrow>
        outputs ! k =
          decode (fold (\<lambda>i. denoise (int i) (prompts call ! k) (negs ! k)
                               (ip_adapter_image call) (call_guidance_scale call))
                    [0 ..< nat (call_num_inference_steps call)] (call_latents call ! k))) \<and>
     target = outputs ! 2 \<and> target = last outputs \<and> prompts call ! 2 = prompt"
proof -
  from style_inversion_generation_call[OF run] obtain f zts outputs call where
    f: "files st init_fpath = Some f" and
    call: "call =
       \<lparr>prompts =
          [case style_prompt of
             Some s \<Rightarrow> s
           | None \<Rightarrow> blip2_caption E (resize_1024 E (convert_rgb E f)),
           prompt, prompt],
        negative_prompts =
          (case negative_prompt of
             NegStr s \<Rightarrow> NegList [s, s, s]
           | NegList ss \<Rightarrow> NegList ss),
        ip_adapter_image = resize_1024 E (convert_rgb E f),
        call_num_inference_steps = cfg_num_inference_steps cfg,
        call_guidance_scale = cfg_guidance_scale cfg,
        call_latents = [zts ! 5, zts ! 5, randn E 2],
        callback = callback_on_step_end zts 5\<rparr>" and
    g: "generate E call = Inr outputs" and
    t: "py_index outputs (- 1) = Inr target"
    by blast
  define negs where
    "negs = (case negative_prompt of NegStr s \<Rightarrow> [s, s, s] | NegList ss \<Rightarrow> ss)"
  have pl: "length (prompts call) = 3" "length (call_latents call) = 3"
    and cbk: "callback call = callback_on_step_end zts 5"
    by (simp_all add: call)
  have negs': "(case negative_prompts call of
                  NegStr s \<Rightarrow> replicate (length (prompts call)) s
                | NegList ss \<Rightarrow> ss) = negs"
    by (cases negative_prompt) (simp_all add: call negs_def)
  from g gen have gg: "guided_generation denoise decode call = Inr outputs"
    by simp
  then have nl: "length negs = 3"
    using pl by (auto simp: guided_generation_def negs' Let_def split: if_splits)
  from gg nl pl obtain res where
    steps: "generation_steps denoise call negs [0 ..< nat (call_num_inference_steps call)]
              (call_latents call) = Inr res" and
    out: "outputs = map decode res"
    by (auto simp: guided_generation_def negs' Let_def split: if_splits sum.splits)
  from generation_steps_entries[OF cbk _ _ steps] pl nl have
    rl: "length res = 3" and
    re: "\<forall>k. 0 < k \<and> k < 3 \<longrightarrow>
        res ! k =
          fold (\<lambda>i. denoise (int i) (prompts call ! k) (negs ! k) (ip_adapter_image call)
                       (call_guidance_scale call))
            [0 ..< nat (call_num_inference_steps call)] (call_latents call ! k)"
    by simp_all
  have ol: "length outputs = 3"
    by (simp add: out rl)
  have oe: "outputs ! k =
          decode (fold (\<lambda>i. denoise (int i) (prompts call ! k) (negs ! k)
                               (ip_adapter_image call) (call_guidance_scale call))
                    [0 ..< nat (call_num_inference_steps call)] (call_latents call ! k))"
    if "0 < k" "k < 3" for k
    using that re rl by (simp add: out)
  from py_index_last[OF t] ol have tl: "target = last outputs" "target = outputs ! 2"
    by (simp_all add: last_conv_nth)
  have p: "prompts call =
       [case style_prompt of
          Some s \<Rightarrow> s
        | None \<Rightarrow> blip2_caption E (resize_1024 E (convert_rgb E f)),
        prompt, prompt]" and p2: "prompts call ! 2 = prompt"
    by (simp_all add: call)
  show ?thesis
    using f g p negs_def nl pl ol oe tl p2
    by (intro exI[of _ f] exI[of _ call] exI[of _ outputs] exI[of _ negs]) simp
qed

text \<open>The concrete pipeline with the generation call of the spec, the prompt-dependent
  denoiser and the identity decoder.\<close>

lemma ex_style_inversion_generated:
  "style_inversion (ex_env\<lparr>generate := guided_generation ex_denoise (\<lambda>l. l)\<rparr>) ex_cfg ex_state
      ''boat'' (NegStr []) None ''style.png''
   = Inr ([303/2],
          \<lparr>files = [''style.png'' \<mapsto> [255], ''out/sd_sample/target.png'' \<mapsto> [303/2]],
           captioned = [[255]], step = 0, frame_idx = 0\<rparr>)"
  by (simp add: pipe_defs loss_defs ex_inv6 py_index_def guided_generation_def ex_denoise_def
      Let_def eval_nat_numeral)

theorem generation_outputs_follow_prompts_witness:
  "generate (ex_env\<lparr>generate := guided_generation ex_denoise (\<lambda>l. l)\<rparr>)
     = guided_generation ex_denoise (\<lambda>l. l)
   \<and> style_inversion (ex_env\<lparr>generate := guided_generation ex_denoise (\<lambda>l. l)\<rparr>) ex_cfg
        ex_state ''boat'' (NegStr []) None ''style.png''
     = Inr ([303/2],
          \<lparr>files = [''style.png'' \<mapsto> [255], ''out/sd_sample/target.png'' \<mapsto> [303/2]],
           captioned = [[255]], step = 0, frame_idx = 0\<rparr>)
   \<and> (\<exists>call outputs.
         generate (ex_env\<lparr>generate := guided_generation ex_denoise (\<lambda>l. l)\<rparr>) call
           = Inr outputs \<and>
         length outputs = length (prompts call) \<and>
         [303/2] = outputs ! 2 \<and> [303/2] = last outputs \<and> prompts call ! 2 = ''boat'')"
proof -
  have g: "generate (ex_env\<lparr>generate := guided_generation ex_denoise (\<lambda>l. l)\<rparr>)
     = guided_generation ex_denoise (\<lambda>l. l)"
    by simp
  from generation_outputs_follow_prompts[OF g ex_style_inversion_generated]
    g ex_style_inversion_generated
  show ?thesis
    by blast
qed






text \<open>The concrete inversion with eight steps.\<close>

lemma ex_inv8:
  "ddim_inversion ex_sdxl [255] p 8 2
     = Inr [[1/2], [1/2], [1], [1], [2], [2], [4], [4], [8]]"
  by (simp add: inv_defs ex_defs ex_sqrt Let_def eval_nat_numeral)

text \<open>
  Claim C7, as stated, has the callback keep slot 0 on the inversion path at every denoising
  step. With the eight-step trajectory and the offset 5 of the pipeline, the callback writes
  the same latent \<open>[4]\<close>, the trajectory entry 6, at step 0 and at step 1, while the trajectory
  entries \<open>i + 1\<close> of these two steps, the ones the callback writes from step 5 on, are
  \<open>[1/2]\<close> and \<open>[1]\<close>.
\<close>

theorem callback_pins_slot_0_before_offset:
  "ddim_inversion ex_sdxl [255] ''a painting'' 8 2
     = Inr [[1/2], [1/2], [1], [1], [2], [2], [4], [4], [8]]
   \<and> make_inversion_callback [[1/2], [1/2], [1], [1], [2], [2], [4], [4], [8]] 5
     = Inr ([2], callback_on_step_end [[1/2], [1/2], [1], [1], [2], [2], [4], [4], [8]] 5)
   \<and> callback_on_step_end [[1/2], [1/2], [1], [1], [2], [2], [4], [4], [8]] 5 0
       [[2], [2], [255/2]] = Inr [[4], [2], [255/2]]
   \<and> callback_on_step_end [[1/2], [1/2], [1], [1], [2], [2], [4], [4], [8]] 5 1
       [[3], [2], [255/2]] = Inr [[4], [2], [255/2]]
   \<and> [[1/2], [1/2], [1], [1], [2], [2], [4], [4], [8 :: real]] ! 1 = [1/2]
   \<and> [[1/2], [1/2], [1], [1], [2], [2], [4], [4], [8 :: real]] ! 2 = [1]"
  using ex_inv8[of "''a painting''"]
  by (simp add: make_inversion_callback_def callback_on_step_end_def py_setitem_def
      py_index_def)

text \<open>
  Claim C7, amended. During guided synthesis the per-step callback that
  \<^verbatim>\<open>style_inversion\<close> registers with the generation call is the one
  \<^verbatim>\<open>make_inversion_callback\<close> builds, with offset 5, from the trajectory saved by the
  inversion, and slots 0 and 1 of the initial batch are the trajectory entry 5. At every
  denoising step \<open>i\<close> whose index lies inside the trajectory, the callback overwrites slot 0
  of a non-empty batch with a saved trajectory latent and leaves the other slots as they are:
  the fixed entry 6 during the steps before 5, the entry \<open>i + 1\<close> of the step from step 5 on.
\<close>

theorem registered_callback_reinjects_trajectory:
  assumes "style_inversion E cfg st prompt negative_prompt style_prompt init_fpath
             = Inr (target, st')"
  shows "\<exists>f zts call outputs.
     files st init_fpath = Some f \<and>
     ddim_inversion (init_sdxl_pipeline E) (resize_1024 E (convert_rgb E f))
       (case style_prompt of
          Some s \<Rightarrow> s
        | None \<Rightarrow> blip2_caption E (resize_1024 E (convert_rgb E f)))
       (cfg_num_inference_steps cfg) 2 = Inr zts \<and>
     generate E call = Inr outputs \<and>
     make_inversion_callback zts 5 = Inr (zts ! 5, callback call) \<and>
     call_latents call = [zts ! 5, zts ! 5, randn E 2] \<and>
     (\<forall>i latents.
        0 \<le> i \<and> max 6 (i + 1) < int (length zts) \<and> latents \<noteq> [] \<longrightarrow>
        callback call i latents
          = Inr ((if i < 5 then zts ! 6 else zts ! nat (i + 1)) # tl latents))"
proof -
  from style_inversion_generation_call[OF assms] obtain f zts outputs call where
    f: "files st init_fpath = Some f" and
    inv: "ddim_inversion (init_sdxl_pipeline E) (resize_1024 E (convert_rgb E f))
       (case style_prompt of
          Some s \<Rightarrow> s
        | None \<Rightarrow> blip2_caption E (resize_1024 E (convert_rgb E f)))
       (cfg_num_inference_steps cfg) 2 = Inr zts" and
    len: "5 < length zts" and
    call: "call =
       \<lparr>prompts =
          [case style_prompt of
             Some s \<Rightarrow> s
           | None \<Rightarrow> blip2_caption E (resize_1024 E (convert_rgb E f)),
           prompt, prompt],
        negative_prompts =
          (case negative_prompt of
             NegStr s \<Rightarrow> NegList [s, s, s]
           | NegList ss \<Rightarrow> NegList ss),
        ip_adapter_image = resize_1024 E (convert_rgb E f),
        call_num_inference_steps = cfg_num_inference_steps cfg,
        call_guidance_scale = cfg_guidance_scale cfg,
        call_latents = [zts ! 5, zts ! 5, randn E 2],
        callback = callback_on_step_end zts 5\<rparr>" and
    g: "generate E call = Inr outputs"
    by blast
  have cb: "callback call = callback_on_step_end zts 5"
    and cl: "call_latents call = [zts ! 5, zts ! 5, randn E 2]"
    by (simp_all add: call)
  from len have mk: "make_inversion_callback zts 5 = Inr (zts ! 5, callback call)"
    by (simp add: make_inversion_callback_def py_index_def cb)
  have arms: "callback call i latents
          = Inr ((if i < 5 then zts ! 6 else zts ! nat (i + 1)) # tl latents)"
    if "0 \<le> i" "max 6 (i + 1) < int (length zts)" "latents \<noteq> []" for i latents
  proof -
    have "nat (max (5 + 1) (i + 1)) = (if i < 5 then 6 else nat (i + 1))"
      by (simp add: max_def)
    with callback_replaces_slot_0[of i 5 zts latents] that show ?thesis
      by (simp add: cb)
  qed
  from f inv g mk cl arms show ?thesis
    by blast
qed

lemma ex_style_inversion_8:
  "style_inversion ex_env (ex_cfg\<lparr>cfg_num_inference_steps := 8\<rparr>) ex_state ''a red boat''
      (NegStr []) None ''style.png''
   = Inr ([255/2],
          \<lparr>files = [''style.png'' \<mapsto> [255], ''out/sd_sample/target.png'' \<mapsto> [255/2]],
           captioned = [[255]], step = 0, frame_idx = 0\<rparr>)"
  by (simp add: pipe_defs loss_defs ex_inv8 py_index_def Let_def eval_nat_numeral)

theorem registered_callback_reinjects_trajectory_witness:
  "style_inversion ex_env (ex_cfg\<lparr>cfg_num_inference_steps := 8\<rparr>) ex_state ''a red boat''
      (NegStr []) None ''style.png''
   = Inr ([255/2],
          \<lparr>files = [''style.png'' \<mapsto> [255], ''out/sd_sample/target.png'' \<mapsto> [255/2]],
           captioned = [[255]], step = 0, frame_idx = 0\<rparr>)
   \<and> (\<exists>call :: sdxl_call.
         callback call
           = callback_on_step_end [[1/2], [1/2], [1], [1], [2], [2], [4], [4], [8]] 5 \<and>
         call_latents call = [[2], [2], [255/2]] \<and>
         callback call 0 [[3], [2], [255/2]] = Inr [[4], [2], [255/2]] \<and>
         callback call 7 [[3], [2], [255/2]] = Inr [[8], [2], [255/2]])"
proof -
  let ?zts = "[[1/2], [1/2], [1], [1], [2], [2], [4], [4], [8 :: real]]"
  from registered_callback_reinjects_trajectory[OF ex_style_inversion_8]
  obtain f zts and call :: sdxl_call and outputs where
    f: "files ex_state ''style.png'' = Some f" and
    inv: "ddim_inversion (init_sdxl_pipeline ex_env)
            (resize_1024 ex_env (convert_rgb ex_env f))
            (case None of
               Some s \<Rightarrow> s
             | None \<Rightarrow> blip2_caption ex_env (resize_1024 ex_env (convert_rgb ex_env f)))
            (cfg_num_inference_steps (ex_cfg\<lparr>cfg_num_inference_steps := 8\<rparr>)) 2 = Inr zts" and
    mk: "make_inversion_callback zts 5 = Inr (zts ! 5, callback call)" and
    cl: "call_latents call = [zts ! 5, zts ! 5, randn ex_env 2]" and
    arms: "\<forall>i latents.
        0 \<le> i \<and> max 6 (i + 1) < int (length zts) \<and> latents \<noteq> [] \<longrightarrow>
        callback call i latents
          = Inr ((if i < 5 then zts ! 6 else zts ! nat (i + 1)) # tl latents)"
    by blast
  from f have "f = [255]"
    by (simp add: ex_state_def)
  with inv ex_inv8 have zts: "zts = ?zts"
    by (simp add: ex_env_def ex_cfg_def)
  from mk have cb: "callback call = callback_on_step_end ?zts 5"
    by (auto simp: zts make_inversion_callback_def split: sum.splits)
  have l: "call_latents call = [[2], [2], [255/2]]"
    using cl by (simp add: zts ex_env_def)
  have a0: "callback call 0 [[3], [2], [255/2]] = Inr [[4], [2], [255/2]]"
    using arms[rule_format, of 0 "[[3], [2], [255/2]]"] by (simp add: zts)
  have a7: "callback call 7 [[3], [2], [255/2]] = Inr [[8], [2], [255/2]]"
    using arms[rule_format, of 7 "[[3], [2], [255/2]]"] by (simp add: zts)
  from cb l a0 a7 ex_style_inversion_8 show ?thesis
    by blast
qed


end
